theory Spec2Isabelle
  imports Main
begin

section \<open>Values exchanged over HTTP\<close>

text \<open>
  Request bodies and JSON responses.  \<open>req.body\<close> is whatever JSON the client sent, so
  the handlers receive an arbitrary value of this type and validate it themselves.
\<close>

datatype json =
    JNull
  | JBool bool
  | JNum int
  | JStr string
  | JArr "json list"
  | JObj "(string \<times> json) list"

text \<open>
  What a \<open>try\<close> block of a handler can catch.  \<open>routes.ts\<close> distinguishes
  \<open>z.ZodError\<close> (carrying its issues) and \<open>ObjectNotFoundError\<close>; every other thrown
  value is treated alike, and is represented by \<open>Error\<close> with its message.
\<close>

datatype exn =
    ZodError "string list"
  | ObjectNotFoundError
  | Error string

section \<open>Data model\<close>

text \<open>
  The seven stages of a quote, in their fixed order.  The constructor names are the
  specification's; \<open>status_name\<close> gives the stored strings of the order status
  workflow listed in the repository's overview document.
\<close>

datatype quote_status =
    REQUESTED | PROVIDED | CONFIRMED | IN_PRODUCTION | QUALITY_CHECK | SHIPPED | DELIVERED

fun index :: "quote_status \<Rightarrow> nat" where
  "index REQUESTED = 1"
| "index PROVIDED = 2"
| "index CONFIRMED = 3"
| "index IN_PRODUCTION = 4"
| "index QUALITY_CHECK = 5"
| "index SHIPPED = 6"
| "index DELIVERED = 7"

fun status_name :: "quote_status \<Rightarrow> string" where
  "status_name REQUESTED = ''quote_requested''"
| "status_name PROVIDED = ''quote_provided''"
| "status_name CONFIRMED = ''order_confirmed''"
| "status_name IN_PRODUCTION = ''in_production''"
| "status_name QUALITY_CHECK = ''quality_check''"
| "status_name SHIPPED = ''shipped''"
| "status_name DELIVERED = ''delivered''"

definition all_statuses :: "quote_status list" where
  "all_statuses =
     [REQUESTED, PROVIDED, CONFIRMED, IN_PRODUCTION, QUALITY_CHECK, SHIPPED, DELIVERED]"

definition parse_status :: "string \<Rightarrow> quote_status option" where
  "parse_status s = find (\<lambda>st. status_name st = s) all_statuses"

text \<open>
  A row of the users table.  The fields are those read in \<open>routes.ts\<close> and in the local
  authentication module; \<open>password\<close> holds the bcrypt hash and is nullable (the login
  strategy tests \<open>!user.password\<close>), \<open>isAdmin\<close> is an integer flag compared with \<open>1\<close>.
\<close>

record user =
  uid :: string
  email :: "string option"
  password :: "string option"
  firstName :: "string option"
  lastName :: "string option"
  profileImageUrl :: "string option"
  isAdmin :: "int option"
  createdAt :: "nat option"
  updatedAt :: "nat option"

text \<open>
  A row of the quotes table.  Prices are decimal strings (the quote page applies
  \<open>parseFloat\<close> to them).
\<close>

record quote =
  qid :: string
  userId :: string
  partName :: "string option"
  service :: string
  status :: quote_status
  finalPrice :: "string option"
  targetPrice :: "string option"

record quote_file =
  quoteId :: string
  fileName :: string
  filePath :: string
  fileType :: string
  fileSize :: int

text \<open>
  A row of the quote status history table.  The overview document lists its fields as
  id, quoteId, status and notes, and the status handler passes exactly the quote id, the
  status and the notes to the storage layer, so a row records no actor.
\<close>

record history_entry =
  h_quoteId :: string
  h_status :: quote_status
  h_notes :: "string option"

text \<open>What \<open>storage.getQuote\<close> returns: the quote with its files and its history.\<close>

record quote_with_files =
  q_row :: quote
  files :: "quote_file list"
  statusHistory :: "history_entry list"

text \<open>
  The relational store.  Quotes are keyed by id; users, files and history rows are
  kept in insertion order.
\<close>

record store =
  users :: "user list"
  quotes :: "string \<rightharpoonup> quote"
  quoteFiles :: "quote_file list"
  quoteStatusHistory :: "history_entry list"

section \<open>Requests and responses\<close>

text \<open>
  The part of an Express request the handlers read: the id of the session's user
  (\<open>req.user.id\<close>, absent when the request is not authenticated), the route parameter
  \<open>:id\<close>, the path, the wildcard parameter \<open>:filePath\<close>, the \<open>filename\<close> query
  parameter and the body.
\<close>

record request =
  r_user :: "string option"
  r_id :: string
  r_path :: string
  r_filePath :: string
  r_filename :: "string option"
  r_body :: json

datatype payload =
    Text string
  | Json json
  | QuoteRow quote
  | QuoteFull quote_with_files
  | Bytes "nat list" "string option"

datatype response = Response nat payload

fun code :: "response \<Rightarrow> nat" where
  "code (Response c _) = c"

fun body :: "response \<Rightarrow> payload" where
  "body (Response _ b) = b"

definition err_json :: "string \<Rightarrow> payload" where
  "err_json m = Json (JObj [(''error'', JStr m)])"

definition msg_json :: "string \<Rightarrow> payload" where
  "msg_json m = Json (JObj [(''message'', JStr m)])"

text \<open>
  The middleware \<open>isAuthenticated\<close> of the local authentication module: the handler
  runs when the request carries an authenticated user, and the response is 401
  otherwise.
\<close>

definition unauthorized :: response where
  "unauthorized = Response 401 (msg_json ''Unauthorized'')"

definition isAuthenticated :: "request \<Rightarrow> response + string" where
  "isAuthenticated req =
     (case r_user req of
        None \<Rightarrow> Inl unauthorized
      | Some requester \<Rightarrow> Inr requester)"

section \<open>Storage layer\<close>

text \<open>
  The storage module (\<open>./storage\<close>) is imported by \<open>routes.ts\<close> and by the local
  authentication module, but is not among the source files.  Its operations are
  modelled below, each from what the spec says of it.
\<close>

text \<open>
  Modelled from the spec: \<open>storage.getUser\<close> is not among the source files.  It yields
  the user with the given id, if any (section 6: the principal of a request).
\<close>

definition getUser :: "store \<Rightarrow> string \<Rightarrow> user option" where
  "getUser s i = find (\<lambda>u. uid u = i) (users s)"

text \<open>
  Modelled from the spec: \<open>storage.getUserById\<close> is not among the source files.  It
  yields the user with the given id, if any.
\<close>

definition getUserById :: "store \<Rightarrow> string \<Rightarrow> user option" where
  "getUserById s i = find (\<lambda>u. uid u = i) (users s)"

text \<open>
  Modelled from the spec: \<open>storage.getUserByEmail\<close> is not among the source files.  It
  yields the first user with the given e-mail address, if any.
\<close>

definition getUserByEmail :: "store \<Rightarrow> string \<Rightarrow> user option" where
  "getUserByEmail s e = find (\<lambda>u. email u = Some e) (users s)"

text \<open>
  Modelled from the spec: \<open>storage.getQuote\<close> is not among the source files.  It yields
  the quote with the given id together with its files and its history rows
  (section 3: a quote owns its files and its history), if the quote exists.
\<close>

definition getQuote :: "store \<Rightarrow> string \<Rightarrow> quote_with_files option" where
  "getQuote s i =
     (case quotes s i of
        None \<Rightarrow> None
      | Some q \<Rightarrow>
          Some \<lparr> q_row = q,
                 files = filter (\<lambda>f. quoteId f = i) (quoteFiles s),
                 statusHistory = filter (\<lambda>h. h_quoteId h = i) (quoteStatusHistory s) \<rparr>)"

text \<open>
  Modelled from the spec: \<open>storage.updateQuoteStatus\<close> is not among the source files.
  Section 4.5 gives its effect (the quote's status is set and one history entry with the
  new status and the notes is appended, as one unit of work), section 7 the error for an
  absent quote, and section 9 records that the observed behaviour validates no
  transition: any status can be set.  The handler in \<open>routes.ts\<close> agrees with
  section 9: it never reads the current status and has no branch for a rejected
  transition.
\<close>

definition updateQuoteStatus ::
  "store \<Rightarrow> string \<Rightarrow> quote_status \<Rightarrow> string option \<Rightarrow> exn + (quote \<times> store)" where
  "updateQuoteStatus s i st notes =
     (case quotes s i of
        None \<Rightarrow> Inl (Error ''NotFound'')
      | Some q \<Rightarrow>
          (let q' = q\<lparr>status := st\<rparr>
           in Inr (q',
                   s\<lparr> quotes := (quotes s)(i \<mapsto> q'),
                      quoteStatusHistory :=
                        quoteStatusHistory s @
                          [\<lparr> h_quoteId = i, h_status = st, h_notes = notes \<rparr>] \<rparr>)))"

text \<open>
  Modelled from the spec: \<open>storage.updateQuotePrice\<close> is not among the source files.
  Section 4.5 (\<open>setFinalPrice\<close>): the final price of the quote is set, independently of
  its status.
\<close>

definition updateQuotePrice ::
  "store \<Rightarrow> string \<Rightarrow> string \<Rightarrow> exn + (quote \<times> store)" where
  "updateQuotePrice s i p =
     (case quotes s i of
        None \<Rightarrow> Inl (Error ''NotFound'')
      | Some q \<Rightarrow>
          (let q' = q\<lparr>finalPrice := Some p\<rparr>
           in Inr (q', s\<lparr> quotes := (quotes s)(i \<mapsto> q') \<rparr>)))"

section \<open>Request schemas\<close>

text \<open>
  The schemas of \<open>@shared/schema\<close> are not among the source files.  \<open>parse\<close> returns the
  validated data or throws a \<open>ZodError\<close>; \<open>zod\<close> is that throw.
\<close>

definition zod :: "string \<Rightarrow> exn + 'a" where
  "zod field = Inl (ZodError [field])"

text \<open>
  Modelled from the spec: \<open>updateQuoteStatusSchema\<close> is not among the source files.
  Section 6 gives the body \<open>{status, notes}\<close>: \<open>status\<close> is one of the seven stages
  (section 3), \<open>notes\<close> an optional string.
\<close>

definition updateQuoteStatusSchema :: "json \<Rightarrow> exn + (quote_status \<times> string option)" where
  "updateQuoteStatusSchema b =
     (case b of
        JObj fs \<Rightarrow>
          (case map_of fs ''status'' of
             Some (JStr s) \<Rightarrow>
               (case parse_status s of
                  None \<Rightarrow> zod ''status''
                | Some st \<Rightarrow>
                    (case map_of fs ''notes'' of
                       None \<Rightarrow> Inr (st, None)
                     | Some (JStr n) \<Rightarrow> Inr (st, Some n)
                     | Some _ \<Rightarrow> zod ''notes''))
           | _ \<Rightarrow> zod ''status'')
      | _ \<Rightarrow> zod ''body'')"

text \<open>
  Modelled from the spec: \<open>updateQuotePriceSchema\<close> is not among the source files.
  Section 6 gives the body \<open>{finalPrice}\<close>, a monetary amount, kept as a decimal string.
\<close>

definition updateQuotePriceSchema :: "json \<Rightarrow> exn + string" where
  "updateQuotePriceSchema b =
     (case b of
        JObj fs \<Rightarrow>
          (case map_of fs ''finalPrice'' of
             Some (JStr p) \<Rightarrow> Inr p
           | _ \<Rightarrow> zod ''finalPrice'')
      | _ \<Rightarrow> zod ''body'')"

section \<open>Administration of quotes\<close>

text \<open>
  The \<open>catch\<close> clause shared by the two administrative handlers: a \<open>ZodError\<close> is
  answered with 400 and its issues, anything else with the same 500.
\<close>

fun admin_catch :: "exn \<Rightarrow> response" where
  "admin_catch (ZodError issues) =
     Response 400
       (Json (JObj [(''error'', JStr ''Validation error''),
                    (''details'', JArr (map JStr issues))]))"
| "admin_catch _ = Response 500 (err_json ''Internal server error'')"

definition forbidden_admin :: response where
  "forbidden_admin = Response 403 (err_json ''Forbidden - Admin access required'')"

text \<open>The test \<open>user?.isAdmin !== 1\<close>, negated: the requester holds the admin capability.\<close>

definition is_admin :: "user option \<Rightarrow> bool" where
  "is_admin u = (case u of None \<Rightarrow> False | Some x \<Rightarrow> isAdmin x = Some 1)"

text \<open>
  \<open>PUT /api/admin/quotes/:id/status\<close>.  The storage call is a parameter \<open>upd\<close>, so that
  the handler's own control flow can be stated for any storage layer; the route is the
  handler applied to \<open>updateQuoteStatus\<close>.
\<close>

definition status_handler ::
  "(store \<Rightarrow> string \<Rightarrow> quote_status \<Rightarrow> string option \<Rightarrow> exn + (quote \<times> store)) \<Rightarrow>
   store \<Rightarrow> request \<Rightarrow> response \<times> store" where
  "status_handler upd s req =
     (case isAuthenticated req of
        Inl r \<Rightarrow> (r, s)
      | Inr requester \<Rightarrow>
          if \<not> is_admin (getUser s requester) then (forbidden_admin, s)
          else
            (case updateQuoteStatusSchema (r_body req) of
               Inl e \<Rightarrow> (admin_catch e, s)
             | Inr (st, notes) \<Rightarrow>
                 (case upd s (r_id req) st notes of
                    Inl e \<Rightarrow> (admin_catch e, s)
                  | Inr (q, s') \<Rightarrow> (Response 200 (QuoteRow q), s'))))"

definition put_quote_status :: "store \<Rightarrow> request \<Rightarrow> response \<times> store" where
  "put_quote_status = status_handler updateQuoteStatus"

text \<open>\<open>PUT /api/admin/quotes/:id/price\<close>, with the storage call as a parameter likewise.\<close>

definition price_handler ::
  "(store \<Rightarrow> string \<Rightarrow> string \<Rightarrow> exn + (quote \<times> store)) \<Rightarrow>
   store \<Rightarrow> request \<Rightarrow> response \<times> store" where
  "price_handler upd s req =
     (case isAuthenticated req of
        Inl r \<Rightarrow> (r, s)
      | Inr requester \<Rightarrow>
          if \<not> is_admin (getUser s requester) then (forbidden_admin, s)
          else
            (case updateQuotePriceSchema (r_body req) of
               Inl e \<Rightarrow> (admin_catch e, s)
             | Inr p \<Rightarrow>
                 (case upd s (r_id req) p of
                    Inl e \<Rightarrow> (admin_catch e, s)
                  | Inr (q, s') \<Rightarrow> (Response 200 (QuoteRow q), s'))))"

definition put_quote_price :: "store \<Rightarrow> request \<Rightarrow> response \<times> store" where
  "put_quote_price = price_handler updateQuotePrice"

text \<open>
  A run of status requests, one after the other, with the response to each; and the
  number of them that were answered 200 for a given quote.
\<close>

fun run_status_updates :: "store \<Rightarrow> request list \<Rightarrow> response list \<times> store" where
  "run_status_updates s [] = ([], s)"
| "run_status_updates s (req # reqs) =
     (case put_quote_status s req of
        (resp, s') \<Rightarrow>
          (case run_status_updates s' reqs of
             (resps, s'') \<Rightarrow> (resp # resps, s'')))"

definition successful_on :: "string \<Rightarrow> request list \<Rightarrow> response list \<Rightarrow> nat" where
  "successful_on i reqs resps =
     length (filter (\<lambda>(req, resp). r_id req = i \<and> code resp = 200) (zip reqs resps))"

definition history_of :: "store \<Rightarrow> string \<Rightarrow> history_entry list" where
  "history_of s i = filter (\<lambda>h. h_quoteId h = i) (quoteStatusHistory s)"

section \<open>Reading a quote\<close>

text \<open>\<open>GET /api/quotes/:id\<close>.\<close>

definition get_quote :: "store \<Rightarrow> request \<Rightarrow> response" where
  "get_quote s req =
     (case isAuthenticated req of
        Inl r \<Rightarrow> r
      | Inr requester \<Rightarrow>
          (case getQuote s (r_id req) of
             None \<Rightarrow> Response 404 (err_json ''Quote not found'')
           | Some qf \<Rightarrow>
               if userId (q_row qf) \<noteq> requester \<and> \<not> is_admin (getUser s requester)
               then Response 403 (err_json ''Forbidden'')
               else Response 200 (QuoteFull qf)))"

section \<open>Object access control\<close>

datatype permission = READ | WRITE

datatype visibility = PUBLIC | PRIVATE

record acl_rule =
  groupType :: string
  groupId :: string
  rule_permission :: permission

record object_policy =
  ownerId :: string
  policy_visibility :: visibility
  rules :: "acl_rule list"

text \<open>
  Modelled from the spec: the access-control module of the object storage is not among
  the source files.  Section 4.2: a rule's permission covers the requested one when it
  is \<open>WRITE\<close> or the request is a \<open>READ\<close>.
\<close>

definition covers :: "permission \<Rightarrow> permission \<Rightarrow> bool" where
  "covers granted requested = (granted = WRITE \<or> requested = READ)"

text \<open>
  Modelled from the spec: step 3 of the algorithm of section 4.2.  The rules are
  scanned in order, and the first rule whose group contains the requester and whose
  permission covers the requested one allows.  Group membership is an external
  capability and is the parameter \<open>member\<close>.
\<close>

fun scan_rules ::
  "(string \<Rightarrow> string \<Rightarrow> string \<Rightarrow> bool) \<Rightarrow> acl_rule list \<Rightarrow> string \<Rightarrow> permission \<Rightarrow> bool" where
  "scan_rules member [] requesterId requested = False"
| "scan_rules member (rule # rest) requesterId requested =
     (if member (groupType rule) (groupId rule) requesterId
         \<and> covers (rule_permission rule) requested
      then True
      else scan_rules member rest requesterId requested)"

text \<open>
  Modelled from the spec: \<open>checkAccess\<close> as section 4.2 gives it.  The owner is allowed
  first, then a public object may be read by anyone, then the rules are scanned;
  otherwise the answer is deny.
\<close>

definition checkAccess ::
  "(string \<Rightarrow> string \<Rightarrow> string \<Rightarrow> bool) \<Rightarrow> object_policy \<Rightarrow> string \<Rightarrow> permission \<Rightarrow> bool" where
  "checkAccess member policy requesterId requested =
     (if requesterId = ownerId policy then True
      else if policy_visibility policy = PUBLIC \<and> requested = READ then True
      else scan_rules member (rules policy) requesterId requested)"

text \<open>
  Modelled from the spec: the policy codec is not among the source files.  Section 6
  gives the persisted record \<open>{ownerId, visibility: "public"|"private", rules}\<close>; the
  fields may be absent in what the backend returns, and there may be others.
\<close>

record metadata_record =
  m_ownerId :: "string option"
  m_visibility :: "string option"
  m_rules :: "acl_rule list option"
  m_extra :: "(string \<times> string) list"

text \<open>
  Modelled from the spec: \<open>encode\<close> of section 4.1 writes the three fields of the
  policy.
\<close>

definition encode :: "object_policy \<Rightarrow> metadata_record" where
  "encode policy =
     \<lparr> m_ownerId = Some (ownerId policy),
       m_visibility =
         Some (case policy_visibility policy of PUBLIC \<Rightarrow> ''public'' | PRIVATE \<Rightarrow> ''private''),
       m_rules = Some (rules policy),
       m_extra = [] \<rparr>"

text \<open>
  Modelled from the spec: \<open>decode\<close> of section 4.1 fails with \<open>MalformedPolicy\<close> when
  \<open>ownerId\<close> or \<open>visibility\<close> is absent or unparsable, and ignores extra fields.
\<close>

definition decode :: "metadata_record \<Rightarrow> exn + object_policy" where
  "decode m =
     (case m_ownerId m of
        None \<Rightarrow> Inl (Error ''MalformedPolicy'')
      | Some ow \<Rightarrow>
          (case m_visibility m of
             None \<Rightarrow> Inl (Error ''MalformedPolicy'')
           | Some v \<Rightarrow>
               if v = ''public'' then
                 Inr \<lparr> ownerId = ow, policy_visibility = PUBLIC,
                       rules = (case m_rules m of None \<Rightarrow> [] | Some rs \<Rightarrow> rs) \<rparr>
               else if v = ''private'' then
                 Inr \<lparr> ownerId = ow, policy_visibility = PRIVATE,
                       rules = (case m_rules m of None \<Rightarrow> [] | Some rs \<Rightarrow> rs) \<rparr>
               else Inl (Error ''MalformedPolicy'')))"

section \<open>Object storage service\<close>

text \<open>
  Modelled from the spec: the object storage service (\<open>./objectStorage\<close>) is imported
  by \<open>routes.ts\<close> but is not among the source files.  The blob backend keeps, per
  object, its bytes and an optional metadata record (section 6); objects of the private
  namespace are keyed by their canonical object path, openly published objects by
  their public path (section 4.4, \<open>resolvePublic\<close>).
\<close>

record blob =
  content :: "nat list"
  metadata :: "metadata_record option"

record blob_store =
  private_objects :: "string \<rightharpoonup> blob"
  public_objects :: "string \<rightharpoonup> blob"

text \<open>The handle the service returns for a stored object.\<close>

record object_file =
  f_key :: string
  f_blob :: blob

text \<open>
  Modelled from the spec: \<open>getObjectEntityFile\<close> is not among the source files.  It
  returns the object at a canonical path and throws \<open>ObjectNotFoundError\<close> when there is
  none (section 4.4: \<open>NotFound\<close> if object absent).
\<close>

definition getObjectEntityFile :: "blob_store \<Rightarrow> string \<Rightarrow> exn + object_file" where
  "getObjectEntityFile bs objectPath =
     (case private_objects bs objectPath of
        None \<Rightarrow> Inl ObjectNotFoundError
      | Some b \<Rightarrow> Inr \<lparr> f_key = objectPath, f_blob = b \<rparr>)"

text \<open>
  Modelled from the spec: \<open>canAccessObjectEntity\<close> is not among the source files.  It
  decodes the object's policy and runs \<open>checkAccess\<close> (section 4.4, \<open>resolveAndStream\<close>).
  The requested permission is optional and a read when omitted; an object with no
  metadata at all is denied (section 4.1, \<open>NoPolicy\<close>).
\<close>

definition canAccessObjectEntity ::
  "(string \<Rightarrow> string \<Rightarrow> string \<Rightarrow> bool) \<Rightarrow> object_file \<Rightarrow> string \<Rightarrow> permission option
     \<Rightarrow> exn + bool" where
  "canAccessObjectEntity member objectFile requesterId requestedPermission =
     (case metadata (f_blob objectFile) of
        None \<Rightarrow> Inr False
      | Some m \<Rightarrow>
          (case decode m of
             Inl e \<Rightarrow> Inl e
           | Inr policy \<Rightarrow>
               Inr (checkAccess member policy requesterId
                      (case requestedPermission of None \<Rightarrow> READ | Some p \<Rightarrow> p))))"

text \<open>
  Modelled from the spec: \<open>downloadObject\<close> is not among the source files.  It answers
  200 and streams the object's bytes (section 4.4); the file name hint travels with
  the stream.
\<close>

definition downloadObject :: "object_file \<Rightarrow> nat option \<Rightarrow> string option \<Rightarrow> response" where
  "downloadObject objectFile ttl filenameHint =
     Response 200 (Bytes (content (f_blob objectFile)) filenameHint)"

text \<open>
  Modelled from the spec: \<open>searchPublicObject\<close> is not among the source files.  It
  yields the openly published object at a path, if any (section 4.4, \<open>resolvePublic\<close>).
\<close>

definition searchPublicObject :: "blob_store \<Rightarrow> string \<Rightarrow> exn + object_file option" where
  "searchPublicObject bs p =
     Inr (case public_objects bs p of
            None \<Rightarrow> None
          | Some b \<Rightarrow> Some \<lparr> f_key = p, f_blob = b \<rparr>)"

text \<open>
  Modelled from the spec: \<open>trySetObjectEntityAclPolicy\<close> is not among the source files.
  Section 4.4 (\<open>attachPolicyAfterUpload\<close>): it normalizes the upload URL, encodes the
  policy and attaches it to the object, replacing any earlier one, and returns the
  canonical path.  The normalization of backend URLs (section 4.3,
  \<open>normalizeToObjectPath\<close>) is the parameter \<open>norm\<close>.
\<close>

definition trySetObjectEntityAclPolicy ::
  "(string \<Rightarrow> string) \<Rightarrow> blob_store \<Rightarrow> string \<Rightarrow> object_policy \<Rightarrow> exn + (string \<times> blob_store)" where
  "trySetObjectEntityAclPolicy norm bs rawPath policy =
     (let normalizedPath = norm rawPath
      in case getObjectEntityFile bs normalizedPath of
           Inl e \<Rightarrow> Inl e
         | Inr objectFile \<Rightarrow>
             Inr (normalizedPath,
                  bs\<lparr> private_objects :=
                        (private_objects bs)
                          (normalizedPath \<mapsto>
                             (f_blob objectFile)\<lparr>metadata := Some (encode policy)\<rparr>) \<rparr>))"

section \<open>Serving objects\<close>

text \<open>The \<open>catch\<close> clause of \<open>GET /objects/:objectPath(*)\<close>.\<close>

fun object_catch :: "exn \<Rightarrow> response" where
  "object_catch ObjectNotFoundError = Response 404 (Text ''Not Found'')"
| "object_catch _ = Response 500 (Text ''Internal Server Error'')"

text \<open>\<open>GET /objects/:objectPath(*)\<close>.\<close>

definition get_object ::
  "(string \<Rightarrow> string \<Rightarrow> string \<Rightarrow> bool) \<Rightarrow> blob_store \<Rightarrow> request \<Rightarrow> response" where
  "get_object member bs req =
     (case isAuthenticated req of
        Inl r \<Rightarrow> r
      | Inr requester \<Rightarrow>
          (case getObjectEntityFile bs (r_path req) of
             Inl e \<Rightarrow> object_catch e
           | Inr objectFile \<Rightarrow>
               (case canAccessObjectEntity member objectFile requester None of
                  Inl e \<Rightarrow> object_catch e
                | Inr canAccess \<Rightarrow>
                    if \<not> canAccess then Response 401 (Text ''Unauthorized'')
                    else downloadObject objectFile (Some 3600) (r_filename req))))"

text \<open>
  \<open>GET /public-objects/:filePath(*)\<close>.  The route has no authentication middleware,
  and passes \<open>downloadObject\<close> neither a time-to-live nor a file name.
\<close>

definition get_public_object :: "blob_store \<Rightarrow> request \<Rightarrow> response" where
  "get_public_object bs req =
     (case searchPublicObject bs (r_filePath req) of
        Inl e \<Rightarrow> Response 500 (err_json ''Internal server error'')
      | Inr None \<Rightarrow> Response 404 (err_json ''File not found'')
      | Inr (Some file) \<Rightarrow> downloadObject file None None)"

section \<open>Creating a quote\<close>

text \<open>
  The \<open>files\<close> part of the body of \<open>POST /api/quotes\<close>, as \<open>filesSchema\<close> in
  \<open>routes.ts\<close> has it: a non-empty array of objects with a string \<open>uploadURL\<close>, a string
  \<open>name\<close> and an optional number \<open>size\<close>.
\<close>

record upload =
  uploadURL :: string
  up_name :: string
  up_size :: "int option"

definition parse_upload :: "json \<Rightarrow> upload option" where
  "parse_upload j =
     (case j of
        JObj fs \<Rightarrow>
          (case (map_of fs ''uploadURL'', map_of fs ''name'') of
             (Some (JStr u), Some (JStr n)) \<Rightarrow>
               (case map_of fs ''size'' of
                  None \<Rightarrow> Some \<lparr> uploadURL = u, up_name = n, up_size = None \<rparr>
                | Some (JNum k) \<Rightarrow> Some \<lparr> uploadURL = u, up_name = n, up_size = Some k \<rparr>
                | Some _ \<Rightarrow> None)
           | _ \<Rightarrow> None)
      | _ \<Rightarrow> None)"

fun parse_uploads :: "json list \<Rightarrow> upload list option" where
  "parse_uploads [] = Some []"
| "parse_uploads (j # js) =
     (case parse_upload j of
        None \<Rightarrow> None
      | Some u \<Rightarrow> (case parse_uploads js of None \<Rightarrow> None | Some us \<Rightarrow> Some (u # us)))"

definition filesSchema :: "(string \<times> json) list \<Rightarrow> exn + upload list" where
  "filesSchema fs =
     (case map_of fs ''files'' of
        Some (JArr js) \<Rightarrow>
          (case parse_uploads js of
             None \<Rightarrow> zod ''files''
           | Some us \<Rightarrow> if us = [] then zod ''At least one file is required'' else Inr us)
      | _ \<Rightarrow> zod ''files'')"

text \<open>
  Modelled from the spec: \<open>insertQuoteSchema\<close> of \<open>@shared/schema\<close> is not among the
  source files.  Section 3 names the fields a customer supplies: the service, and
  optionally a part name and a target price.
\<close>

record insert_quote =
  i_partName :: "string option"
  i_service :: string
  i_targetPrice :: "string option"

text \<open>An optional, nullable string field of a body.\<close>

definition opt_string :: "(string \<times> json) list \<Rightarrow> string \<Rightarrow> (string option) option" where
  "opt_string fs k =
     (case map_of fs k of
        None \<Rightarrow> Some None
      | Some JNull \<Rightarrow> Some None
      | Some (JStr v) \<Rightarrow> Some (Some v)
      | Some _ \<Rightarrow> None)"

text \<open>
  Modelled from the spec: \<open>insertQuoteSchema\<close>, with the fields of section 3 above: a
  required service, an optional part name and an optional target price.
\<close>

definition insertQuoteSchema :: "(string \<times> json) list \<Rightarrow> exn + insert_quote" where
  "insertQuoteSchema fs =
     (case map_of fs ''service'' of
        Some (JStr sv) \<Rightarrow>
          (case (opt_string fs ''partName'', opt_string fs ''targetPrice'') of
             (Some pn, Some tp) \<Rightarrow>
               Inr \<lparr> i_partName = pn, i_service = sv, i_targetPrice = tp \<rparr>
           | _ \<Rightarrow> zod ''quote'')
      | _ \<Rightarrow> zod ''service'')"

text \<open>\<open>insertQuoteSchema.merge(filesSchema)\<close>, applied to the body.\<close>

definition combinedSchema :: "json \<Rightarrow> exn + (insert_quote \<times> upload list)" where
  "combinedSchema b =
     (case b of
        JObj fs \<Rightarrow>
          (case insertQuoteSchema fs of
             Inl e \<Rightarrow> Inl e
           | Inr quoteData \<Rightarrow>
               (case filesSchema fs of
                  Inl e \<Rightarrow> Inl e
                | Inr us \<Rightarrow> Inr (quoteData, us)))
      | _ \<Rightarrow> zod ''body'')"

text \<open>
  Modelled from the spec: \<open>storage.createQuote\<close> is not among the source files.
  Section 4.5: a quote starts in the first stage; section 8: its history starts with
  the creation entry.  \<open>newId\<close> is the key the database generates for the new row.
\<close>

definition createQuote ::
  "store \<Rightarrow> string \<Rightarrow> insert_quote \<Rightarrow> string \<Rightarrow> quote \<times> store" where
  "createQuote s newId quoteData owner =
     (let q = \<lparr> qid = newId, userId = owner, partName = i_partName quoteData,
                 service = i_service quoteData, status = REQUESTED, finalPrice = None,
                 targetPrice = i_targetPrice quoteData \<rparr>
      in (q,
          s\<lparr> quotes := (quotes s)(newId \<mapsto> q),
             quoteStatusHistory :=
               quoteStatusHistory s @
                 [\<lparr> h_quoteId = newId, h_status = REQUESTED, h_notes = None \<rparr>] \<rparr>))"

text \<open>
  Modelled from the spec: \<open>storage.createQuoteFile\<close> is not among the source files.
  Section 3: one file row per uploaded artifact, created once.
\<close>

definition createQuoteFile :: "store \<Rightarrow> quote_file \<Rightarrow> quote_file \<times> store" where
  "createQuoteFile s f = (f, s\<lparr> quoteFiles := quoteFiles s @ [f] \<rparr>)"

text \<open>\<open>file.name.split('.').pop() || ''\<close>: what follows the last dot of the name.\<close>

definition file_extension :: "string \<Rightarrow> string" where
  "file_extension n = rev (takeWhile (\<lambda>c. c \<noteq> CHR ''.'') (rev n))"

text \<open>The row \<open>POST /api/quotes\<close> stores for one uploaded file.\<close>

definition file_record :: "string \<Rightarrow> upload \<Rightarrow> string \<Rightarrow> quote_file" where
  "file_record q f normalizedPath =
     \<lparr> quoteId = q, fileName = up_name f, filePath = normalizedPath,
       fileType = file_extension (up_name f),
       fileSize = (case up_size f of None \<Rightarrow> 0 | Some k \<Rightarrow> k) \<rparr>"

text \<open>
  The body of \<open>files.map(async (file) => ...)\<close> under \<open>Promise.all\<close>: every file is
  processed, a file whose policy cannot be attached gets no row, and the first error
  is the one \<open>Promise.all\<close> rejects with.
\<close>

fun attach_files ::
  "(string \<Rightarrow> string) \<Rightarrow> string \<Rightarrow> string \<Rightarrow> upload list \<Rightarrow> store \<times> blob_store
     \<Rightarrow> exn option \<times> store \<times> blob_store" where
  "attach_files norm owner q [] (s, bs) = (None, s, bs)"
| "attach_files norm owner q (f # fs) (s, bs) =
     (case trySetObjectEntityAclPolicy norm bs (uploadURL f)
             \<lparr> ownerId = owner, policy_visibility = PRIVATE, rules = [] \<rparr> of
        Inl e \<Rightarrow>
          (case attach_files norm owner q fs (s, bs) of
             (_, s', bs') \<Rightarrow> (Some e, s', bs'))
      | Inr (normalizedPath, bs1) \<Rightarrow>
          (case createQuoteFile s (file_record q f normalizedPath) of
             (_, s1) \<Rightarrow> attach_files norm owner q fs (s1, bs1)))"

fun quote_catch :: "exn \<Rightarrow> response" where
  "quote_catch (ZodError issues) =
     Response 400
       (Json (JObj [(''error'', JStr ''Validation error''),
                    (''details'', JArr (map JStr issues))]))"
| "quote_catch _ = Response 500 (err_json ''Internal server error'')"

text \<open>\<open>POST /api/quotes\<close>.\<close>

definition post_quotes ::
  "(string \<Rightarrow> string) \<Rightarrow> string \<Rightarrow> store \<times> blob_store \<Rightarrow> request
     \<Rightarrow> response \<times> store \<times> blob_store" where
  "post_quotes norm newId st req =
     (case isAuthenticated req of
        Inl r \<Rightarrow> (r, st)
      | Inr requester \<Rightarrow>
          (case combinedSchema (r_body req) of
             Inl e \<Rightarrow> (quote_catch e, st)
           | Inr (quoteData, fs) \<Rightarrow>
               (case createQuote (fst st) newId quoteData requester of
                  (q, s1) \<Rightarrow>
                    (case attach_files norm requester (qid q) fs (s1, snd st) of
                       (Some e, s2, bs2) \<Rightarrow> (quote_catch e, s2, bs2)
                     | (None, s2, bs2) \<Rightarrow>
                         (case getQuote s2 (qid q) of
                            None \<Rightarrow> (Response 200 (Json JNull), s2, bs2)
                          | Some qf \<Rightarrow> (Response 200 (QuoteFull qf), s2, bs2))))))"

section \<open>Authentication endpoints\<close>

text \<open>
  The object \<open>userWithoutPassword\<close>, built field by field at four places: in
  \<open>POST /api/register\<close>, in \<open>GET /api/auth/user\<close>, in the verify function of the local
  strategy and in \<open>passport.deserializeUser\<close>.
\<close>

definition jopt :: "('a \<Rightarrow> json) \<Rightarrow> 'a option \<Rightarrow> json" where
  "jopt f v = (case v of None \<Rightarrow> JNull | Some x \<Rightarrow> f x)"

definition userWithoutPassword :: "user \<Rightarrow> json" where
  "userWithoutPassword u =
     JObj [(''id'', JStr (uid u)),
           (''email'', jopt JStr (email u)),
           (''firstName'', jopt JStr (firstName u)),
           (''lastName'', jopt JStr (lastName u)),
           (''profileImageUrl'', jopt JStr (profileImageUrl u)),
           (''isAdmin'', jopt JNum (isAdmin u)),
           (''createdAt'', jopt (\<lambda>n. JNum (int n)) (createdAt u)),
           (''updatedAt'', jopt (\<lambda>n. JNum (int n)) (updatedAt u))]"

text \<open>The keys of a JSON object.\<close>

definition object_keys :: "json \<Rightarrow> string list" where
  "object_keys j = (case j of JObj fs \<Rightarrow> map fst fs | _ \<Rightarrow> [])"

text \<open>
  The validated data of a registration: the fields \<open>POST /api/register\<close> reads from
  it.
\<close>

record insert_user =
  iu_email :: string
  iu_password :: string
  iu_firstName :: "string option"
  iu_lastName :: "string option"
  iu_profileImageUrl :: "string option"

text \<open>
  Modelled from the spec: \<open>insertUserSchema\<close> of \<open>@shared/schema\<close> is not among the
  source files, and the spec leaves registration to the session gateway (section 6).
  The schema is taken to require the two strings the handler cannot do without and to
  allow the three optional ones it copies.
\<close>

definition insertUserSchema :: "json \<Rightarrow> exn + insert_user" where
  "insertUserSchema b =
     (case b of
        JObj fs \<Rightarrow>
          (case (map_of fs ''email'', map_of fs ''password'') of
             (Some (JStr e), Some (JStr p)) \<Rightarrow>
               (case (opt_string fs ''firstName'', opt_string fs ''lastName'',
                      opt_string fs ''profileImageUrl'') of
                  (Some fn, Some ln, Some pic) \<Rightarrow>
                    Inr \<lparr> iu_email = e, iu_password = p, iu_firstName = fn,
                          iu_lastName = ln, iu_profileImageUrl = pic \<rparr>
                | _ \<Rightarrow> zod ''user'')
           | _ \<Rightarrow> zod ''credentials'')
      | _ \<Rightarrow> zod ''body'')"

text \<open>
  Modelled from the spec: \<open>loginUserSchema\<close> of \<open>@shared/schema\<close> is not among the
  source files; the local strategy is configured with the fields \<open>email\<close> and
  \<open>password\<close>, which the schema is taken to require as strings.
\<close>

definition loginUserSchema :: "json \<Rightarrow> exn + (string \<times> string)" where
  "loginUserSchema b =
     (case b of
        JObj fs \<Rightarrow>
          (case (map_of fs ''email'', map_of fs ''password'') of
             (Some (JStr e), Some (JStr p)) \<Rightarrow> Inr (e, p)
           | _ \<Rightarrow> zod ''credentials'')
      | _ \<Rightarrow> zod ''body'')"

text \<open>
  The environment of the authentication code: bcrypt (\<open>hashPassword\<close>,
  \<open>verifyPassword\<close>), \<open>storage.createUser\<close>, which is not among the source files and on
  which the spec is silent, and whether \<open>req.login\<close> reports an error.
\<close>

record auth_env =
  hashPassword :: "string \<Rightarrow> string"
  verifyPassword :: "string \<Rightarrow> string \<Rightarrow> bool"
  createUser :: "store \<Rightarrow> insert_user \<Rightarrow> exn + (user \<times> store)"
  login_fails :: bool

fun register_catch :: "exn \<Rightarrow> response" where
  "register_catch (ZodError issues) =
     Response 400
       (Json (JObj [(''message'', JStr ''Validation error''),
                    (''errors'', JArr (map JStr issues))]))"
| "register_catch _ = Response 500 (msg_json ''Failed to register user'')"

text \<open>\<open>POST /api/register\<close>.\<close>

definition register :: "auth_env \<Rightarrow> store \<Rightarrow> request \<Rightarrow> response \<times> store" where
  "register env s req =
     (case insertUserSchema (r_body req) of
        Inl e \<Rightarrow> (register_catch e, s)
      | Inr validatedData \<Rightarrow>
          (case getUserByEmail s (iu_email validatedData) of
             Some existingUser \<Rightarrow> (Response 400 (msg_json ''Email already registered''), s)
           | None \<Rightarrow>
               (case createUser env s
                       (validatedData
                          \<lparr> iu_password := hashPassword env (iu_password validatedData) \<rparr>) of
                  Inl e \<Rightarrow> (register_catch e, s)
                | Inr (u, s') \<Rightarrow>
                    if login_fails env
                    then (Response 500 (msg_json ''Registration successful but login failed''), s')
                    else (Response 200 (Json (userWithoutPassword u)), s'))))"

text \<open>
  The verify function of the local strategy: \<open>done(error)\<close>, \<open>done(null, false, info)\<close>
  or \<open>done(null, userWithoutPassword)\<close>.
\<close>

datatype verified = Failed exn | Rejected string | Verified json

definition local_verify :: "auth_env \<Rightarrow> store \<Rightarrow> string \<Rightarrow> string \<Rightarrow> verified" where
  "local_verify env s e p =
     (case getUserByEmail s e of
        None \<Rightarrow> Rejected ''Invalid email or password''
      | Some u \<Rightarrow>
          (case password u of
             None \<Rightarrow> Rejected ''Invalid email or password''
           | Some h \<Rightarrow>
               if h = [] then Rejected ''Invalid email or password''
               else if \<not> verifyPassword env p h then Rejected ''Invalid email or password''
               else Verified (userWithoutPassword u)))"

text \<open>
  \<open>POST /api/login\<close>.  The parsed body is discarded: a \<open>ZodError\<close> is answered 400, and
  otherwise the local strategy reads \<open>email\<close> and \<open>password\<close> from the body itself,
  rejecting the request when either is missing or empty.
\<close>

definition credentials :: "json \<Rightarrow> (string \<times> string) option" where
  "credentials b =
     (case b of
        JObj fs \<Rightarrow>
          (case (map_of fs ''email'', map_of fs ''password'') of
             (Some (JStr e), Some (JStr p)) \<Rightarrow> if e = [] \<or> p = [] then None else Some (e, p)
           | _ \<Rightarrow> None)
      | _ \<Rightarrow> None)"

definition login :: "auth_env \<Rightarrow> store \<Rightarrow> request \<Rightarrow> response" where
  "login env s req =
     (case loginUserSchema (r_body req) of
        Inl (ZodError issues) \<Rightarrow>
          Response 400
            (Json (JObj [(''message'', JStr ''Validation error''),
                         (''errors'', JArr (map JStr issues))]))
      | _ \<Rightarrow>
          (case credentials (r_body req) of
             None \<Rightarrow> Response 401 (msg_json ''Missing credentials'')
           | Some (e, p) \<Rightarrow>
               (case local_verify env s e p of
                  Failed err \<Rightarrow> Response 500 (msg_json ''Authentication failed'')
                | Rejected m \<Rightarrow>
                    Response 401 (msg_json (if m = [] then ''Invalid credentials'' else m))
                | Verified u \<Rightarrow>
                    if login_fails env then Response 500 (msg_json ''Login failed'')
                    else Response 200 (Json u))))"

text \<open>\<open>GET /api/auth/user\<close>.\<close>

definition auth_user :: "store \<Rightarrow> request \<Rightarrow> response" where
  "auth_user s req =
     (case isAuthenticated req of
        Inl r \<Rightarrow> r
      | Inr requester \<Rightarrow>
          (case getUser s requester of
             None \<Rightarrow> Response 404 (msg_json ''User not found'')
           | Some u \<Rightarrow> Response 200 (Json (userWithoutPassword u))))"

text \<open>\<open>passport.deserializeUser\<close>: \<open>done(null, false)\<close> or \<open>done(null, userWithoutPassword)\<close>.\<close>

definition deserializeUser :: "store \<Rightarrow> string \<Rightarrow> json option" where
  "deserializeUser s i =
     (case getUserById s i of
        None \<Rightarrow> None
      | Some u \<Rightarrow> Some (userWithoutPassword u))"

section \<open>Notions used in the properties\<close>

text \<open>
  A quote is audited when it exists and the latest row of its history carries its
  current status.
\<close>

definition audited :: "store \<Rightarrow> string \<Rightarrow> bool" where
  "audited s i =
     (case quotes s i of
        None \<Rightarrow> False
      | Some q \<Rightarrow> history_of s i \<noteq> [] \<and> h_status (last (history_of s i)) = status q)"

text \<open>
  The policy \<open>POST /api/quotes\<close> attaches for an owner, and the private objects of a
  blob store after that policy has been attached to the objects stored under the keys
  \<open>K\<close>.
\<close>

definition private_policy :: "string \<Rightarrow> object_policy" where
  "private_policy owner = \<lparr> ownerId = owner, policy_visibility = PRIVATE, rules = [] \<rparr>"

definition attached ::
  "object_policy \<Rightarrow> string set \<Rightarrow> (string \<rightharpoonup> blob) \<Rightarrow> (string \<rightharpoonup> blob)" where
  "attached policy K m =
     (\<lambda>k. if k \<in> K then map_option (\<lambda>b. b\<lparr>metadata := Some (encode policy)\<rparr>) (m k)
          else m k)"

text \<open>
  The top-level keys of a response body, and the store with every password hash
  replaced.
\<close>

definition payload_keys :: "payload \<Rightarrow> string list" where
  "payload_keys p = (case p of Json j \<Rightarrow> object_keys j | _ \<Rightarrow> [])"

definition rehash :: "(user \<Rightarrow> string option) \<Rightarrow> store \<Rightarrow> store" where
  "rehash f s = s\<lparr> users := map (\<lambda>u. u\<lparr> password := f u \<rparr>) (users s) \<rparr>"

section \<open>A concrete scenario\<close>

text \<open>
  An administrator \<open>a1\<close>, a customer \<open>u1\<close>, another customer \<open>u2\<close>, and the quote
  \<open>q1\<close> of \<open>u1\<close>, which has reached the last stage.
\<close>

definition scenario_admin :: user where
  "scenario_admin =
     \<lparr> uid = ''a1'', email = Some ''admin@example.com'', password = Some ''$2b$10$adminhash'',
       firstName = Some ''Ada'', lastName = None, profileImageUrl = None,
       isAdmin = Some 1, createdAt = Some 1, updatedAt = Some 1 \<rparr>"

definition scenario_customer :: user where
  "scenario_customer =
     \<lparr> uid = ''u1'', email = Some ''customer@example.com'', password = Some ''$2b$10$custhash'',
       firstName = Some ''Cem'', lastName = None, profileImageUrl = None,
       isAdmin = Some 0, createdAt = Some 2, updatedAt = Some 2 \<rparr>"

definition scenario_stranger :: user where
  "scenario_stranger =
     \<lparr> uid = ''u2'', email = Some ''other@example.com'', password = Some ''$2b$10$otherhash'',
       firstName = None, lastName = None, profileImageUrl = None,
       isAdmin = None, createdAt = Some 3, updatedAt = Some 3 \<rparr>"

definition scenario_quote :: quote where
  "scenario_quote =
     \<lparr> qid = ''q1'', userId = ''u1'', partName = Some ''bracket'', service = ''cnc_machining'',
       status = DELIVERED, finalPrice = None, targetPrice = None \<rparr>"

definition scenario_store :: store where
  "scenario_store =
     \<lparr> users = [scenario_admin, scenario_customer, scenario_stranger],
       quotes = [''q1'' \<mapsto> scenario_quote],
       quoteFiles = [],
       quoteStatusHistory = [\<lparr> h_quoteId = ''q1'', h_status = DELIVERED, h_notes = None \<rparr>] \<rparr>"

definition status_request :: "string \<Rightarrow> string \<Rightarrow> string \<Rightarrow> request" where
  "status_request who i st =
     \<lparr> r_user = Some who, r_id = i, r_path = ''/api/admin/quotes/'' @ i @ ''/status'',
       r_filePath = [], r_filename = None, r_body = JObj [(''status'', JStr st)] \<rparr>"

definition malformed_request :: request where
  "malformed_request =
     \<lparr> r_user = Some ''a1'', r_id = ''q1'', r_path = ''/api/admin/quotes/q1/status'',
       r_filePath = [], r_filename = None,
       r_body = JObj [(''status'', JStr ''returned''), (''finalPrice'', JNum 12)] \<rparr>"

definition scenario_order :: insert_quote where
  "scenario_order = \<lparr> i_partName = Some ''flange'', i_service = ''laser_cutting'',
                       i_targetPrice = None \<rparr>"

definition scenario_run :: "request list" where
  "scenario_run =
     [status_request ''a1'' ''q2'' ''quote_provided'',
      status_request ''u1'' ''q2'' ''shipped'',
      status_request ''a1'' ''q1'' ''delivered'',
      status_request ''a1'' ''q2'' ''shipped'']"

definition scenario_policy :: object_policy where
  "scenario_policy = \<lparr> ownerId = ''u1'', policy_visibility = PRIVATE, rules = [] \<rparr>"

definition scenario_blobs :: blob_store where
  "scenario_blobs =
     \<lparr> private_objects =
         [''/objects/uploads/part1'' \<mapsto>
            \<lparr> content = [80, 75, 3, 4], metadata = Some (encode scenario_policy) \<rparr>],
       public_objects =
         [''logo.png'' \<mapsto> \<lparr> content = [137, 80, 78, 71], metadata = None \<rparr>] \<rparr>"

definition no_groups :: "string \<Rightarrow> string \<Rightarrow> string \<Rightarrow> bool" where
  "no_groups gt gi who = False"

definition object_request :: "string option \<Rightarrow> string \<Rightarrow> request" where
  "object_request who p =
     \<lparr> r_user = who, r_id = [], r_path = p, r_filePath = p, r_filename = None,
       r_body = JNull \<rparr>"

definition quote_request :: "string \<Rightarrow> string \<Rightarrow> request" where
  "quote_request who i =
     \<lparr> r_user = Some who, r_id = i, r_path = ''/api/quotes/'' @ i, r_filePath = [],
       r_filename = None, r_body = JNull \<rparr>"

definition scenario_norm :: "string \<Rightarrow> string" where
  "scenario_norm url =
     (if take 20 url = ''https://blob.example'' then takeWhile (\<lambda>c. c \<noteq> CHR ''?'') (drop 20 url)
      else url)"

definition scenario_uploads :: blob_store where
  "scenario_uploads =
     \<lparr> private_objects =
         [''/objects/uploads/part2'' \<mapsto> \<lparr> content = [1, 2, 3], metadata = None \<rparr>],
       public_objects = Map.empty \<rparr>"

definition quote_post :: request where
  "quote_post =
     \<lparr> r_user = Some ''u2'', r_id = [], r_path = ''/api/quotes'', r_filePath = [],
       r_filename = None,
       r_body =
         JObj [(''service'', JStr ''cnc_machining''),
               (''files'',
                JArr [JObj [(''uploadURL'',
                             JStr ''https://blob.example/objects/uploads/part2?sig=abc''),
                            (''name'', JStr ''part2.step''),
                            (''size'', JNum 3)]])] \<rparr>"

definition scenario_createUser :: "store \<Rightarrow> insert_user \<Rightarrow> exn + (user \<times> store)" where
  "scenario_createUser s d =
     (let u = \<lparr> uid = ''u3'', email = Some (iu_email d), password = Some (iu_password d),
                 firstName = iu_firstName d, lastName = iu_lastName d,
                 profileImageUrl = iu_profileImageUrl d, isAdmin = Some 0,
                 createdAt = Some 4, updatedAt = Some 4 \<rparr>
      in Inr (u, s\<lparr> users := users s @ [u] \<rparr>))"

definition scenario_env :: auth_env where
  "scenario_env =
     \<lparr> hashPassword = (\<lambda>p. ''$2b$10$'' @ p @ ''hash''),
       verifyPassword = (\<lambda>p h. h = ''$2b$10$'' @ p @ ''hash''),
       createUser = scenario_createUser,
       login_fails = False \<rparr>"

definition register_request :: request where
  "register_request =
     \<lparr> r_user = None, r_id = [], r_path = ''/api/register'', r_filePath = [],
       r_filename = None,
       r_body = JObj [(''email'', JStr ''new@example.com''), (''password'', JStr ''secret'')] \<rparr>"

definition login_request :: request where
  "login_request =
     \<lparr> r_user = None, r_id = [], r_path = ''/api/login'', r_filePath = [],
       r_filename = None,
       r_body = JObj [(''email'', JStr ''customer@example.com''), (''password'', JStr ''cust'')] \<rparr>"

section \<open>Properties\<close>

lemma parse_status_name [simp]: "parse_status (status_name st) = Some st"
  by (cases st) (simp_all add: parse_status_def all_statuses_def)

lemma status_schema_throws_zod:
  "updateQuoteStatusSchema b = Inl e \<Longrightarrow> \<exists>issues. e = ZodError issues"
  by (auto simp: updateQuoteStatusSchema_def zod_def
           split: json.splits option.splits)

lemma price_schema_throws_zod:
  "updateQuotePriceSchema b = Inl e \<Longrightarrow> \<exists>issues. e = ZodError issues"
  by (auto simp: updateQuotePriceSchema_def zod_def
           split: json.splits option.splits)

subsection \<open>Authorization of the administrative handlers\<close>

text \<open>
  C2.  An authenticated requester who does not hold the admin capability (no user row,
  or an \<open>isAdmin\<close> flag other than \<open>1\<close>) is answered 403 by both administrative
  handlers, whatever the body asks for, and the store is returned as it was.
\<close>

theorem non_admin_forbidden:
  assumes "r_user req = Some u" and "\<not> is_admin (getUser s u)"
  shows "put_quote_status s req =
           (Response 403 (err_json ''Forbidden - Admin access required''), s)
       \<and> put_quote_price s req =
           (Response 403 (err_json ''Forbidden - Admin access required''), s)"
  using assms
  by (simp add: put_quote_status_def put_quote_price_def status_handler_def
        price_handler_def isAuthenticated_def forbidden_admin_def)

theorem non_admin_forbidden_witness:
  "r_user (status_request ''u1'' ''q1'' ''shipped'') = Some ''u1''
   \<and> \<not> is_admin (getUser scenario_store ''u1'')
   \<and> put_quote_status scenario_store (status_request ''u1'' ''q1'' ''shipped'') =
       (Response 403 (err_json ''Forbidden - Admin access required''), scenario_store)
   \<and> put_quote_price scenario_store (status_request ''u1'' ''q1'' ''shipped'') =
       (Response 403 (err_json ''Forbidden - Admin access required''), scenario_store)"
proof -
  have a: "r_user (status_request ''u1'' ''q1'' ''shipped'') = Some ''u1''"
    by (simp add: status_request_def)
  have b: "\<not> is_admin (getUser scenario_store ''u1'')"
    by (simp add: is_admin_def getUser_def scenario_store_def scenario_customer_def
          scenario_admin_def)
  from non_admin_forbidden [OF a b] a b show ?thesis by simp
qed

lemma admin_catch_not_200 [simp]: "code (admin_catch e) \<noteq> 200"
  by (cases e) simp_all

lemma updateQuoteStatus_code:
  "code (fst (case updateQuoteStatus s i st n of
               Inl e \<Rightarrow> (admin_catch e, s)
             | Inr (q, s') \<Rightarrow> (Response 200 (QuoteRow q), s'))) \<noteq> 400"
  by (simp add: updateQuoteStatus_def Let_def err_json_def split: option.splits)

lemma updateQuotePrice_code:
  "code (fst (case updateQuotePrice s i p of
               Inl e \<Rightarrow> (admin_catch e, s)
             | Inr (q, s') \<Rightarrow> (Response 200 (QuoteRow q), s'))) \<noteq> 400"
  by (simp add: updateQuotePrice_def Let_def err_json_def split: option.splits)

subsection \<open>Validation of the administrative bodies\<close>

text \<open>
  C8.  When an administrator's body does not pass the schema, the status handler and
  the price handler answer 400 with the validation issues and return the store as it
  was: neither status, history nor price changes.  The code 400 is specific to this
  error: for an administrator's request it is the answer exactly when the body is
  malformed.
\<close>

theorem malformed_body_rejected:
  assumes auth: "r_user req = Some u" and adm: "is_admin (getUser s u)"
  shows "(\<forall>e. updateQuoteStatusSchema (r_body req) = Inl e \<longrightarrow>
            put_quote_status s req = (admin_catch e, s) \<and> code (admin_catch e) = 400)
       \<and> (\<forall>e. updateQuotePriceSchema (r_body req) = Inl e \<longrightarrow>
            put_quote_price s req = (admin_catch e, s) \<and> code (admin_catch e) = 400)
       \<and> (code (fst (put_quote_status s req)) = 400
            \<longleftrightarrow> (\<exists>e. updateQuoteStatusSchema (r_body req) = Inl e))
       \<and> (code (fst (put_quote_price s req)) = 400
            \<longleftrightarrow> (\<exists>e. updateQuotePriceSchema (r_body req) = Inl e))"
proof (intro conjI allI impI)
  fix e assume "updateQuoteStatusSchema (r_body req) = Inl e"
  then show "put_quote_status s req = (admin_catch e, s)"
    using auth adm
    by (simp add: put_quote_status_def status_handler_def isAuthenticated_def)
next
  fix e assume "updateQuoteStatusSchema (r_body req) = Inl e"
  then show "code (admin_catch e) = 400"
    by (auto dest: status_schema_throws_zod)
next
  fix e assume "updateQuotePriceSchema (r_body req) = Inl e"
  then show "put_quote_price s req = (admin_catch e, s)"
    using auth adm
    by (simp add: put_quote_price_def price_handler_def isAuthenticated_def)
next
  fix e assume "updateQuotePriceSchema (r_body req) = Inl e"
  then show "code (admin_catch e) = 400"
    by (auto dest: price_schema_throws_zod)
next
  show "code (fst (put_quote_status s req)) = 400
          \<longleftrightarrow> (\<exists>e. updateQuoteStatusSchema (r_body req) = Inl e)"
  proof (cases "updateQuoteStatusSchema (r_body req)")
    case (Inl e)
    then show ?thesis
      using auth adm status_schema_throws_zod [OF Inl]
      by (auto simp: put_quote_status_def status_handler_def isAuthenticated_def)
  next
    case (Inr v)
    then show ?thesis
      using auth adm updateQuoteStatus_code [of s "r_id req" "fst v" "snd v"]
      by (cases v) (simp add: put_quote_status_def status_handler_def isAuthenticated_def)
  qed
next
  show "code (fst (put_quote_price s req)) = 400
          \<longleftrightarrow> (\<exists>e. updateQuotePriceSchema (r_body req) = Inl e)"
  proof (cases "updateQuotePriceSchema (r_body req)")
    case (Inl e)
    then show ?thesis
      using auth adm price_schema_throws_zod [OF Inl]
      by (auto simp: put_quote_price_def price_handler_def isAuthenticated_def)
  next
    case (Inr v)
    then show ?thesis
      using auth adm updateQuotePrice_code [of s "r_id req" v]
      by (simp add: put_quote_price_def price_handler_def isAuthenticated_def)
  qed
qed

lemma scenario_admin_is_admin: "is_admin (getUser scenario_store ''a1'')"
  by (simp add: is_admin_def getUser_def scenario_store_def scenario_admin_def)

theorem malformed_body_rejected_witness:
  "r_user malformed_request = Some ''a1''
   \<and> is_admin (getUser scenario_store ''a1'')
   \<and> updateQuoteStatusSchema (r_body malformed_request) = Inl (ZodError [''status''])
   \<and> updateQuotePriceSchema (r_body malformed_request) = Inl (ZodError [''finalPrice''])
   \<and> put_quote_status scenario_store malformed_request
        = (admin_catch (ZodError [''status'']), scenario_store)
   \<and> put_quote_price scenario_store malformed_request
        = (admin_catch (ZodError [''finalPrice'']), scenario_store)
   \<and> code (fst (put_quote_status scenario_store malformed_request)) = 400
   \<and> code (fst (put_quote_price scenario_store malformed_request)) = 400"
proof -
  have a: "r_user malformed_request = Some ''a1''"
    by (simp add: malformed_request_def)
  have s: "updateQuoteStatusSchema (r_body malformed_request) = Inl (ZodError [''status''])"
    by (simp add: malformed_request_def updateQuoteStatusSchema_def parse_status_def
          all_statuses_def zod_def)
  have p: "updateQuotePriceSchema (r_body malformed_request) = Inl (ZodError [''finalPrice''])"
    by (simp add: malformed_request_def updateQuotePriceSchema_def zod_def)
  from malformed_body_rejected [OF a scenario_admin_is_admin] a s p scenario_admin_is_admin
  show ?thesis by simp
qed

subsection \<open>Status transitions\<close>

text \<open>
  C1 fails as stated: in the scenario the administrator moves the delivered quote back
  to the first stage, and the handler answers 200 and stores the earlier status.
\<close>

theorem status_regression_counterexample:
  "is_admin (getUser scenario_store ''a1'')
   \<and> status scenario_quote = DELIVERED
   \<and> index REQUESTED < index (status scenario_quote)
   \<and> code (fst (put_quote_status scenario_store (status_request ''a1'' ''q1'' ''quote_requested''))) = 200
   \<and> map_option status
        (quotes (snd (put_quote_status scenario_store
                        (status_request ''a1'' ''q1'' ''quote_requested''))) ''q1'')
       = Some REQUESTED"
  by (simp add: is_admin_def getUser_def scenario_store_def scenario_admin_def
        scenario_quote_def put_quote_status_def status_handler_def isAuthenticated_def
        status_request_def updateQuoteStatusSchema_def parse_status_def all_statuses_def
        updateQuoteStatus_def Let_def)

text \<open>
  C1, amended.  For an administrator and a well-formed body naming an existing quote,
  the update is answered 200 and the quote takes the requested status, whatever its
  current status is: forward skips, regressions and updates of a delivered quote
  alike.  The handler does not compare the two statuses for any storage layer: it
  answers 200 with whatever the storage call returns, and every thrown error other
  than a validation error gets the one generic 500, so no rejected transition has a
  response of its own.
\<close>

theorem status_update_unchecked:
  assumes auth: "r_user req = Some u" and adm: "is_admin (getUser s u)"
    and body: "updateQuoteStatusSchema (r_body req) = Inr (st, notes)"
  shows "(\<forall>q. quotes s (r_id req) = Some q \<longrightarrow>
            put_quote_status s req =
              (Response 200 (QuoteRow (q\<lparr>status := st\<rparr>)),
               s\<lparr> quotes := (quotes s)(r_id req \<mapsto> q\<lparr>status := st\<rparr>),
                  quoteStatusHistory :=
                    quoteStatusHistory s @
                      [\<lparr> h_quoteId = r_id req, h_status = st, h_notes = notes \<rparr>] \<rparr>))
       \<and> status_handler upd s req =
            (case upd s (r_id req) st notes of
               Inl e \<Rightarrow> (admin_catch e, s)
             | Inr (q', s') \<Rightarrow> (Response 200 (QuoteRow q'), s'))
       \<and> (\<forall>e. (\<forall>issues. e \<noteq> ZodError issues) \<longrightarrow>
            admin_catch e = Response 500 (err_json ''Internal server error''))"
proof (intro conjI allI impI)
  fix q assume "quotes s (r_id req) = Some q"
  then show "put_quote_status s req =
              (Response 200 (QuoteRow (q\<lparr>status := st\<rparr>)),
               s\<lparr> quotes := (quotes s)(r_id req \<mapsto> q\<lparr>status := st\<rparr>),
                  quoteStatusHistory :=
                    quoteStatusHistory s @
                      [\<lparr> h_quoteId = r_id req, h_status = st, h_notes = notes \<rparr>] \<rparr>)"
    using auth adm body
    by (simp add: put_quote_status_def status_handler_def isAuthenticated_def
          updateQuoteStatus_def Let_def)
next
  show "status_handler upd s req =
            (case upd s (r_id req) st notes of
               Inl e \<Rightarrow> (admin_catch e, s)
             | Inr (q', s') \<Rightarrow> (Response 200 (QuoteRow q'), s'))"
    using auth adm body
    by (simp add: status_handler_def isAuthenticated_def)
next
  fix e :: exn assume "\<forall>issues. e \<noteq> ZodError issues"
  then show "admin_catch e = Response 500 (err_json ''Internal server error'')"
    by (cases e) simp_all
qed

theorem status_update_unchecked_witness:
  "r_user (status_request ''a1'' ''q1'' ''quote_provided'') = Some ''a1''
   \<and> is_admin (getUser scenario_store ''a1'')
   \<and> updateQuoteStatusSchema (r_body (status_request ''a1'' ''q1'' ''quote_provided''))
        = Inr (PROVIDED, None)
   \<and> quotes scenario_store ''q1'' = Some scenario_quote
   \<and> (\<forall>issues. Error ''InvalidTransition'' \<noteq> ZodError issues)
   \<and> fst (put_quote_status scenario_store (status_request ''a1'' ''q1'' ''quote_provided''))
        = Response 200 (QuoteRow (scenario_quote\<lparr>status := PROVIDED\<rparr>))
   \<and> status_handler (\<lambda>s i st n. Inl (Error ''InvalidTransition'')) scenario_store
          (status_request ''a1'' ''q1'' ''quote_provided'')
        = (Response 500 (err_json ''Internal server error''), scenario_store)"
proof -
  let ?req = "status_request ''a1'' ''q1'' ''quote_provided''"
  have a: "r_user ?req = Some ''a1''"
    by (simp add: status_request_def)
  have b: "updateQuoteStatusSchema (r_body ?req) = Inr (PROVIDED, None)"
    by (simp add: status_request_def updateQuoteStatusSchema_def parse_status_def
          all_statuses_def)
  have q: "quotes scenario_store ''q1'' = Some scenario_quote"
    by (simp add: scenario_store_def)
  have i: "r_id ?req = ''q1''"
    by (simp add: status_request_def)
  have z: "\<forall>issues. Error ''InvalidTransition'' \<noteq> ZodError issues"
    by simp
  from status_update_unchecked
         [OF a scenario_admin_is_admin b, of "\<lambda>s i st n. Inl (Error ''InvalidTransition'')"]
       a b q i z scenario_admin_is_admin
  show ?thesis by simp
qed

subsection \<open>History\<close>

lemma status_step:
  assumes "put_quote_status s req = (resp, s')"
  shows "(code resp = 200 \<and>
           (\<exists>q st notes. quotes s (r_id req) = Some q \<and>
              s' = s\<lparr> quotes := (quotes s)(r_id req \<mapsto> q\<lparr>status := st\<rparr>),
                      quoteStatusHistory :=
                        quoteStatusHistory s @
                          [\<lparr> h_quoteId = r_id req, h_status = st, h_notes = notes \<rparr>] \<rparr>))
       \<or> (code resp \<noteq> 200 \<and> s' = s)"
  using assms
  by (auto simp: put_quote_status_def status_handler_def isAuthenticated_def
        updateQuoteStatus_def Let_def unauthorized_def forbidden_admin_def
        split: option.splits sum.splits if_splits prod.splits)

lemma status_step_history:
  assumes "put_quote_status s req = (resp, s')"
  shows "\<exists>new. quoteStatusHistory s' = quoteStatusHistory s @ new
           \<and> length (history_of s' i)
               = length (history_of s i) + (if r_id req = i \<and> code resp = 200 then 1 else 0)"
  using status_step [OF assms] by (auto simp: history_of_def)

lemma status_step_audited:
  assumes "put_quote_status s req = (resp, s')" and "audited s i"
  shows "audited s' i"
  using status_step [OF assms(1)] assms(2)
  by (auto simp: audited_def history_of_def split: option.splits)

lemma run_history:
  "run_status_updates s reqs = (resps, s') \<Longrightarrow>
     (\<exists>new. quoteStatusHistory s' = quoteStatusHistory s @ new)
     \<and> length (history_of s' i) = length (history_of s i) + successful_on i reqs resps
     \<and> (audited s i \<longrightarrow> audited s' i)"
proof (induction reqs arbitrary: s resps)
  case Nil
  then show ?case by (simp add: successful_on_def)
next
  case (Cons req reqs)
  obtain resp s1 where step: "put_quote_status s req = (resp, s1)"
    by (cases "put_quote_status s req")
  obtain rest s2 where run: "run_status_updates s1 reqs = (rest, s2)"
    by (cases "run_status_updates s1 reqs")
  from Cons.prems step run have eq: "resps = resp # rest" "s2 = s'"
    by simp_all
  from Cons.IH [OF run [unfolded eq]] status_step_history [OF step, of i]
    status_step_audited [OF step, of i]
  show ?case
    unfolding eq by (auto simp: successful_on_def)
qed

lemma createQuote_history:
  assumes fresh: "quotes s0 i = None"
    and fk: "\<forall>h \<in> set (quoteStatusHistory s0). quotes s0 (h_quoteId h) \<noteq> None"
    and created: "createQuote s0 i quoteData owner = (q, s)"
  shows "audited s i \<and> length (history_of s i) = 1"
proof -
  from fresh fk have "filter (\<lambda>h. h_quoteId h = i) (quoteStatusHistory s0) = []"
    by (auto simp: filter_empty_conv)
  with created show ?thesis
    by (auto simp: createQuote_def Let_def audited_def history_of_def)
qed

text \<open>
  C3.  Over any run of status requests, the history table only grows at its end (no row
  is edited or deleted), the history of a quote gains exactly one row per request
  answered 200 for it, and a quote whose latest history row carries its current status
  keeps that property.  For a quote created under a fresh id in a store whose history
  rows all belong to existing quotes, the latest row carries the current status and
  the history has one row more than the number of successful transitions.
\<close>

theorem history_audit_trail:
  assumes run: "run_status_updates s reqs = (resps, s')"
  shows "take (length (quoteStatusHistory s)) (quoteStatusHistory s') = quoteStatusHistory s
       \<and> length (history_of s' i) = length (history_of s i) + successful_on i reqs resps
       \<and> (audited s i \<longrightarrow> audited s' i)
       \<and> (\<forall>s0 quoteData owner q.
             quotes s0 i = None
             \<and> (\<forall>h \<in> set (quoteStatusHistory s0). quotes s0 (h_quoteId h) \<noteq> None)
             \<and> createQuote s0 i quoteData owner = (q, s)
             \<longrightarrow> audited s' i \<and> length (history_of s' i) = successful_on i reqs resps + 1)"
proof -
  from run_history [OF run, of i]
  obtain new where new: "quoteStatusHistory s' = quoteStatusHistory s @ new"
    and len: "length (history_of s' i) = length (history_of s i) + successful_on i reqs resps"
    and inv: "audited s i \<longrightarrow> audited s' i"
    by blast
  from new have "take (length (quoteStatusHistory s)) (quoteStatusHistory s') = quoteStatusHistory s"
    by simp
  moreover have "audited s' i \<and> length (history_of s' i) = successful_on i reqs resps + 1"
    if "quotes s0 i = None"
      and "\<forall>h \<in> set (quoteStatusHistory s0). quotes s0 (h_quoteId h) \<noteq> None"
      and "createQuote s0 i quoteData owner = (q, s)"
    for s0 quoteData owner q
    using createQuote_history [OF that] len inv by simp
  ultimately show ?thesis
    using len inv by blast
qed

lemma scenario_run_result:
  "fst (run_status_updates (snd (createQuote scenario_store ''q2'' scenario_order ''u1''))
          scenario_run)
     = [Response 200 (QuoteRow \<lparr> qid = ''q2'', userId = ''u1'', partName = Some ''flange'',
                       service = ''laser_cutting'', status = PROVIDED, finalPrice = None,
                       targetPrice = None \<rparr>),
        Response 403 (err_json ''Forbidden - Admin access required''),
        Response 200 (QuoteRow scenario_quote),
        Response 200 (QuoteRow \<lparr> qid = ''q2'', userId = ''u1'', partName = Some ''flange'',
                       service = ''laser_cutting'', status = SHIPPED, finalPrice = None,
                       targetPrice = None \<rparr>)]"
  by (simp add: scenario_run_def createQuote_def Let_def scenario_store_def scenario_order_def
        put_quote_status_def status_handler_def isAuthenticated_def status_request_def
        is_admin_def getUser_def scenario_admin_def scenario_customer_def
        updateQuoteStatusSchema_def parse_status_def all_statuses_def updateQuoteStatus_def
        forbidden_admin_def scenario_quote_def)

theorem history_audit_trail_witness:
  "quotes scenario_store ''q2'' = None
   \<and> list_all (\<lambda>h. quotes scenario_store (h_quoteId h) \<noteq> None)
        (quoteStatusHistory scenario_store)
   \<and> successful_on ''q2'' scenario_run
        (fst (run_status_updates (snd (createQuote scenario_store ''q2'' scenario_order ''u1''))
                scenario_run)) = 2
   \<and> audited
        (snd (run_status_updates (snd (createQuote scenario_store ''q2'' scenario_order ''u1''))
                scenario_run)) ''q2''
   \<and> length (history_of
        (snd (run_status_updates (snd (createQuote scenario_store ''q2'' scenario_order ''u1''))
                scenario_run)) ''q2'') = 3"
proof -
  let ?s = "snd (createQuote scenario_store ''q2'' scenario_order ''u1'')"
  let ?r = "run_status_updates ?s scenario_run"
  have fresh: "quotes scenario_store ''q2'' = None"
    by (simp add: scenario_store_def)
  have fk: "\<forall>h \<in> set (quoteStatusHistory scenario_store).
              quotes scenario_store (h_quoteId h) \<noteq> None"
    by (simp add: scenario_store_def)
  have created: "createQuote scenario_store ''q2'' scenario_order ''u1''
                   = (fst (createQuote scenario_store ''q2'' scenario_order ''u1''), ?s)"
    by simp
  have run: "?r = (fst ?r, snd ?r)"
    by simp
  have n: "successful_on ''q2'' scenario_run (fst ?r) = 2"
    unfolding scenario_run_result
    by (simp add: successful_on_def scenario_run_def status_request_def err_json_def)
  from history_audit_trail [OF run, of "''q2''"] fresh fk created
  have "audited (snd ?r) ''q2''
        \<and> length (history_of (snd ?r) ''q2'') = successful_on ''q2'' scenario_run (fst ?r) + 1"
    by blast
  with fresh fk n show ?thesis by (simp add: list_all_iff)
qed

subsection \<open>Object access\<close>

lemma decode_encode [simp]: "decode (encode policy) = Inr policy"
  by (cases "policy_visibility policy") (simp_all add: decode_def encode_def)

text \<open>
  C5.  The owner of a policy is allowed whatever permission is requested, whatever the
  visibility, the rules and the group memberships are; the same holds through
  \<open>canAccessObjectEntity\<close> for an object that carries the encoded policy.
\<close>

theorem owner_always_allowed:
  "checkAccess member policy (ownerId policy) requested
   \<and> checkAccess member (policy\<lparr> policy_visibility := v, rules := rs \<rparr>) (ownerId policy) requested
   \<and> canAccessObjectEntity member
        \<lparr> f_key = k, f_blob = \<lparr> content = bytes, metadata = Some (encode policy) \<rparr> \<rparr>
        (ownerId policy) (Some requested) = Inr True"
  by (simp add: checkAccess_def canAccessObjectEntity_def)

text \<open>
  C4.  For an authenticated request to \<open>GET /objects/:path\<close>: an absent object is
  answered 404 without consulting any policy or membership; an object whose policy
  decodes is answered 401 when \<open>checkAccess\<close> denies a read to the requester, and 200
  with the object's bytes when it allows.
\<close>

theorem get_object_outcomes:
  assumes auth: "r_user req = Some u"
  shows "(private_objects bs (r_path req) = None \<longrightarrow>
            get_object member bs req = Response 404 (Text ''Not Found''))
       \<and> (\<forall>b m policy.
            private_objects bs (r_path req) = Some b \<and> metadata b = Some m
            \<and> decode m = Inr policy \<longrightarrow>
            get_object member bs req =
              (if checkAccess member policy u READ
               then Response 200 (Bytes (content b) (r_filename req))
               else Response 401 (Text ''Unauthorized'')))"
  using auth
  by (auto simp: get_object_def isAuthenticated_def getObjectEntityFile_def
        canAccessObjectEntity_def downloadObject_def)

theorem get_object_outcomes_witness:
  "get_object no_groups scenario_blobs (object_request (Some ''u1'') ''/objects/uploads/none'')
     = Response 404 (Text ''Not Found'')
   \<and> get_object no_groups scenario_blobs (object_request (Some ''u1'') ''/objects/uploads/part1'')
     = Response 200 (Bytes [80, 75, 3, 4] None)
   \<and> get_object no_groups scenario_blobs (object_request (Some ''a1'') ''/objects/uploads/part1'')
     = Response 401 (Text ''Unauthorized'')"
proof -
  have absent: "private_objects scenario_blobs ''/objects/uploads/none'' = None"
    by (simp add: scenario_blobs_def)
  have present: "private_objects scenario_blobs ''/objects/uploads/part1''
                   = Some \<lparr> content = [80, 75, 3, 4], metadata = Some (encode scenario_policy) \<rparr>"
    by (simp add: scenario_blobs_def)
  have owner: "checkAccess no_groups scenario_policy ''u1'' READ"
    by (simp add: checkAccess_def scenario_policy_def)
  have other: "\<not> checkAccess no_groups scenario_policy ''a1'' READ"
    by (simp add: checkAccess_def scenario_policy_def no_groups_def)
  have r: "r_user (object_request (Some w) p) = Some w" "r_path (object_request (Some w) p) = p"
    "r_filename (object_request (Some w) p) = None" for w p
    by (simp_all add: object_request_def)
  from get_object_outcomes [where req = "object_request (Some ''u1'') ''/objects/uploads/none''"
      and u = "''u1''" and bs = scenario_blobs and member = no_groups]
    absent r
  have 1: "get_object no_groups scenario_blobs (object_request (Some ''u1'') ''/objects/uploads/none'')
             = Response 404 (Text ''Not Found'')"
    by simp
  from get_object_outcomes [where req = "object_request (Some ''u1'') ''/objects/uploads/part1''"
      and u = "''u1''" and bs = scenario_blobs and member = no_groups]
    present owner r decode_encode [of scenario_policy]
  have 2: "get_object no_groups scenario_blobs (object_request (Some ''u1'') ''/objects/uploads/part1'')
             = Response 200 (Bytes [80, 75, 3, 4] None)"
    by simp
  from get_object_outcomes [where req = "object_request (Some ''a1'') ''/objects/uploads/part1''"
      and u = "''a1''" and bs = scenario_blobs and member = no_groups]
    present other r decode_encode [of scenario_policy]
  have 3: "get_object no_groups scenario_blobs (object_request (Some ''a1'') ''/objects/uploads/part1'')
             = Response 401 (Text ''Unauthorized'')"
    by simp
  from 1 2 3 show ?thesis by simp
qed

text \<open>
  C7.  \<open>GET /public-objects/:path\<close> answers 404 when no public object is stored at the
  path and streams the object's bytes otherwise.  The answer is the same whoever sends
  the request, authenticated or not, and whatever metadata the object carries.
\<close>

theorem public_object_outcomes:
  "get_public_object bs req =
     (case public_objects bs (r_filePath req) of
        None \<Rightarrow> Response 404 (err_json ''File not found'')
      | Some b \<Rightarrow> Response 200 (Bytes (content b) None))
   \<and> get_public_object bs (req\<lparr> r_user := who \<rparr>) = get_public_object bs req
   \<and> get_public_object
        (bs\<lparr> public_objects := (public_objects bs)(p \<mapsto> b\<lparr> metadata := md \<rparr>) \<rparr>) req
      = get_public_object (bs\<lparr> public_objects := (public_objects bs)(p \<mapsto> b) \<rparr>) req"
  by (simp add: get_public_object_def searchPublicObject_def downloadObject_def
        split: option.splits)

subsection \<open>Reading a quote\<close>

text \<open>
  C10.  For an authenticated request to \<open>GET /api/quotes/:id\<close>: an absent quote is
  answered 404; a quote owned by someone else is answered 403 with a fixed body when
  the requester is not an administrator, whatever the quote, its files and its history
  contain; the owner and an administrator receive the quote.
\<close>

theorem get_quote_outcomes:
  assumes auth: "r_user req = Some u"
  shows "(quotes s (r_id req) = None \<longrightarrow>
            get_quote s req = Response 404 (err_json ''Quote not found''))
       \<and> (\<forall>q. quotes s (r_id req) = Some q \<and> userId q \<noteq> u \<and> \<not> is_admin (getUser s u) \<longrightarrow>
            get_quote s req = Response 403 (err_json ''Forbidden'')
            \<and> (\<forall>q' fs hs. userId q' \<noteq> u \<longrightarrow>
                 get_quote (s\<lparr> quotes := (quotes s)(r_id req \<mapsto> q'), quoteFiles := fs,
                               quoteStatusHistory := hs \<rparr>) req
                   = get_quote s req))
       \<and> (\<forall>q. quotes s (r_id req) = Some q \<and> (userId q = u \<or> is_admin (getUser s u)) \<longrightarrow>
            (\<exists>qf. getQuote s (r_id req) = Some qf \<and> q_row qf = q
                   \<and> get_quote s req = Response 200 (QuoteFull qf)))"
  using auth
  by (auto simp: get_quote_def isAuthenticated_def getQuote_def getUser_def)

theorem get_quote_outcomes_witness:
  "get_quote scenario_store (quote_request ''u1'' ''q9'')
     = Response 404 (err_json ''Quote not found'')
   \<and> get_quote scenario_store (quote_request ''u2'' ''q1'')
     = Response 403 (err_json ''Forbidden'')
   \<and> get_quote scenario_store (quote_request ''u1'' ''q1'')
     = Response 200 (QuoteFull \<lparr> q_row = scenario_quote, files = [],
          statusHistory = [\<lparr> h_quoteId = ''q1'', h_status = DELIVERED, h_notes = None \<rparr>] \<rparr>)
   \<and> get_quote scenario_store (quote_request ''a1'' ''q1'')
     = get_quote scenario_store (quote_request ''u1'' ''q1'')"
proof -
  have r: "r_user (quote_request w i) = Some w" "r_id (quote_request w i) = i" for w i
    by (simp_all add: quote_request_def)
  have absent: "quotes scenario_store ''q9'' = None"
    and present: "quotes scenario_store ''q1'' = Some scenario_quote"
    by (simp_all add: scenario_store_def)
  have own: "userId scenario_quote = ''u1''"
    by (simp add: scenario_quote_def)
  have stranger: "\<not> is_admin (getUser scenario_store ''u2'')"
    by (simp add: is_admin_def getUser_def scenario_store_def scenario_admin_def
          scenario_customer_def scenario_stranger_def)
  have full: "getQuote scenario_store ''q1''
                = Some \<lparr> q_row = scenario_quote, files = [],
                    statusHistory = [\<lparr> h_quoteId = ''q1'', h_status = DELIVERED, h_notes = None \<rparr>] \<rparr>"
    by (simp add: getQuote_def scenario_store_def)
  from get_quote_outcomes [where req = "quote_request ''u1'' ''q9''" and u = "''u1''"
      and s = scenario_store] absent r
  have 1: "get_quote scenario_store (quote_request ''u1'' ''q9'')
             = Response 404 (err_json ''Quote not found'')"
    by simp
  from get_quote_outcomes [where req = "quote_request ''u2'' ''q1''" and u = "''u2''"
      and s = scenario_store] present own stranger r
  have 2: "get_quote scenario_store (quote_request ''u2'' ''q1'')
             = Response 403 (err_json ''Forbidden'')"
    by simp
  from get_quote_outcomes [where req = "quote_request ''u1'' ''q1''" and u = "''u1''"
      and s = scenario_store] present own full r
  have 3: "get_quote scenario_store (quote_request ''u1'' ''q1'')
             = Response 200 (QuoteFull \<lparr> q_row = scenario_quote, files = [],
                  statusHistory = [\<lparr> h_quoteId = ''q1'', h_status = DELIVERED, h_notes = None \<rparr>] \<rparr>)"
    by simp
  from get_quote_outcomes [where req = "quote_request ''a1'' ''q1''" and u = "''a1''"
      and s = scenario_store] present scenario_admin_is_admin full r
  have 4: "get_quote scenario_store (quote_request ''a1'' ''q1'')
             = Response 200 (QuoteFull \<lparr> q_row = scenario_quote, files = [],
                  statusHistory = [\<lparr> h_quoteId = ''q1'', h_status = DELIVERED, h_notes = None \<rparr>] \<rparr>)"
    by simp
  from 1 2 3 4 show ?thesis by simp
qed

subsection \<open>Creating a quote\<close>

lemma attached_empty [simp]: "attached policy {} m = m"
  by (simp add: attached_def)

lemma attached_insert_present:
  "m k = Some b \<Longrightarrow>
     attached policy K (m(k \<mapsto> b\<lparr>metadata := Some (encode policy)\<rparr>))
       = attached policy (insert k K) m"
  by (auto simp: attached_def fun_eq_iff)

lemma attached_insert_absent:
  "m k = None \<Longrightarrow> attached policy (insert k K) m = attached policy K m"
  by (auto simp: attached_def fun_eq_iff)

lemma quote_catch_not_200 [simp]: "code (quote_catch e) \<noteq> 200"
  by (cases e) (simp_all add: err_json_def)

lemma attach_files_effect:
  "attach_files norm owner q fs (s, bs) = (err, s', bs') \<Longrightarrow>
     private_objects bs'
       = attached (private_policy owner) (norm ` uploadURL ` set fs) (private_objects bs)
     \<and> public_objects bs' = public_objects bs
     \<and> quoteFiles s'
         = quoteFiles s @
             map (\<lambda>f. file_record q f (norm (uploadURL f)))
               (filter (\<lambda>f. private_objects bs (norm (uploadURL f)) \<noteq> None) fs)
     \<and> quotes s' = quotes s \<and> users s' = users s
     \<and> quoteStatusHistory s' = quoteStatusHistory s
     \<and> (err = None \<longleftrightarrow> (\<forall>f \<in> set fs. private_objects bs (norm (uploadURL f)) \<noteq> None))"
proof (induction fs arbitrary: s bs err s' bs')
  case Nil
  then show ?case by simp
next
  case (Cons f fs)
  show ?case
  proof (cases "private_objects bs (norm (uploadURL f))")
    case None
    obtain e1 s1 b1 where rest: "attach_files norm owner q fs (s, bs) = (e1, s1, b1)"
      by (cases "attach_files norm owner q fs (s, bs)")
    with Cons.prems None have eq: "s' = s1" "bs' = b1" "err \<noteq> None"
      by (auto simp: trySetObjectEntityAclPolicy_def getObjectEntityFile_def Let_def)
    from Cons.IH [OF rest] None eq show ?thesis
      by (auto simp: attached_insert_absent)
  next
    case (Some b)
    let ?bs1 = "bs\<lparr> private_objects :=
                      (private_objects bs)
                        (norm (uploadURL f) \<mapsto>
                           b\<lparr>metadata := Some (encode (private_policy owner))\<rparr>) \<rparr>"
    let ?s1 = "s\<lparr> quoteFiles := quoteFiles s @ [file_record q f (norm (uploadURL f))] \<rparr>"
    from Cons.prems Some have rest: "attach_files norm owner q fs (?s1, ?bs1) = (err, s', bs')"
      by (simp add: trySetObjectEntityAclPolicy_def getObjectEntityFile_def Let_def
            createQuoteFile_def private_policy_def)
    have same: "(private_objects ?bs1 k \<noteq> None) = (private_objects bs k \<noteq> None)" for k
      using Some by simp
    have att: "attached (private_policy owner) K (private_objects ?bs1)
                 = attached (private_policy owner) (insert (norm (uploadURL f)) K)
                     (private_objects bs)" for K
      using attached_insert_present [of "private_objects bs" "norm (uploadURL f)" b
          "private_policy owner" K] Some
      by simp
    from Cons.IH [OF rest] Some show ?thesis
      unfolding same att by simp
  qed
qed

text \<open>
  C6.  For an authenticated \<open>POST /api/quotes\<close> with a valid body, every file whose
  normalized upload URL names a stored object leaves that object with its bytes
  untouched and with the policy "owner = the requester, private, no rules" attached;
  the file rows added are, in order, one per such file, each with the normalized path
  as its \<open>filePath\<close>; the quote is created for the requester; and when the answer is 200
  every file of the request has its object and its row.
\<close>

theorem quote_upload_policies:
  assumes auth: "r_user req = Some u"
    and valid: "combinedSchema (r_body req) = Inr (quoteData, fs)"
    and res: "post_quotes norm newId (s, bs) req = (resp, s', bs')"
  shows "(\<forall>f \<in> set fs. \<forall>b. private_objects bs (norm (uploadURL f)) = Some b \<longrightarrow>
            (\<exists>b'. private_objects bs' (norm (uploadURL f)) = Some b'
                  \<and> content b' = content b
                  \<and> map_option decode (metadata b')
                      = Some (Inr \<lparr> ownerId = u, policy_visibility = PRIVATE, rules = [] \<rparr>)))
       \<and> quoteFiles s'
           = quoteFiles s @
               map (\<lambda>f. \<lparr> quoteId = newId, fileName = up_name f,
                            filePath = norm (uploadURL f),
                            fileType = file_extension (up_name f),
                            fileSize = (case up_size f of None \<Rightarrow> 0 | Some k \<Rightarrow> k) \<rparr>)
                 (filter (\<lambda>f. private_objects bs (norm (uploadURL f)) \<noteq> None) fs)
       \<and> map_option userId (quotes s' newId) = Some u
       \<and> (code resp = 200 \<longrightarrow>
            (\<forall>f \<in> set fs. private_objects bs (norm (uploadURL f)) \<noteq> None))"
proof -
  obtain q s1 where created: "createQuote s newId quoteData u = (q, s1)"
    by (cases "createQuote s newId quoteData u")
  then have q: "qid q = newId" "userId q = u" "quotes s1 newId = Some q"
    "quoteFiles s1 = quoteFiles s"
    by (auto simp: createQuote_def Let_def)
  obtain err s2 bs2 where att: "attach_files norm u newId fs (s1, bs) = (err, s2, bs2)"
    by (cases "attach_files norm u newId fs (s1, bs)")
  from res auth valid created att q(1) have out: "s' = s2" "bs' = bs2"
    and ok: "code resp = 200 \<longrightarrow> err = None"
    by (auto simp: post_quotes_def isAuthenticated_def err_json_def
          split: option.splits)
  note eff = attach_files_effect [OF att]
  have "\<exists>b'. private_objects bs' (norm (uploadURL f)) = Some b'
              \<and> content b' = content b
              \<and> map_option decode (metadata b')
                  = Some (Inr \<lparr> ownerId = u, policy_visibility = PRIVATE, rules = [] \<rparr>)"
    if "f \<in> set fs" and "private_objects bs (norm (uploadURL f)) = Some b" for f b
    using that eff unfolding out
    by (simp add: attached_def private_policy_def)
  moreover from eff q have "quoteFiles s'
           = quoteFiles s @
               map (\<lambda>f. \<lparr> quoteId = newId, fileName = up_name f,
                            filePath = norm (uploadURL f),
                            fileType = file_extension (up_name f),
                            fileSize = (case up_size f of None \<Rightarrow> 0 | Some k \<Rightarrow> k) \<rparr>)
                 (filter (\<lambda>f. private_objects bs (norm (uploadURL f)) \<noteq> None) fs)"
    unfolding out by (simp add: file_record_def)
  moreover from eff q have "map_option userId (quotes s' newId) = Some u"
    unfolding out by simp
  moreover from eff ok
  have "code resp = 200 \<longrightarrow> (\<forall>f \<in> set fs. private_objects bs (norm (uploadURL f)) \<noteq> None)"
    by blast
  ultimately show ?thesis by blast
qed

lemma quote_post_body:
  "combinedSchema (r_body quote_post)
     = Inr (\<lparr> i_partName = None, i_service = ''cnc_machining'', i_targetPrice = None \<rparr>,
            [\<lparr> uploadURL = ''https://blob.example/objects/uploads/part2?sig=abc'',
                up_name = ''part2.step'', up_size = Some 3 \<rparr>])"
  by (simp add: quote_post_def combinedSchema_def insertQuoteSchema_def filesSchema_def
        parse_upload_def opt_string_def)

lemma quote_post_path:
  "scenario_norm ''https://blob.example/objects/uploads/part2?sig=abc''
     = ''/objects/uploads/part2''"
  by (simp add: scenario_norm_def)

theorem quote_upload_policies_witness:
  "r_user quote_post = Some ''u2''
   \<and> private_objects scenario_uploads ''/objects/uploads/part2''
        = Some \<lparr> content = [1, 2, 3], metadata = None \<rparr>
   \<and> (\<exists>b'. private_objects
               (snd (snd (post_quotes scenario_norm ''q2'' (scenario_store, scenario_uploads)
                            quote_post)))
               ''/objects/uploads/part2'' = Some b'
           \<and> content b' = [1, 2, 3]
           \<and> map_option decode (metadata b')
               = Some (Inr \<lparr> ownerId = ''u2'', policy_visibility = PRIVATE, rules = [] \<rparr>))
   \<and> quoteFiles
        (fst (snd (post_quotes scenario_norm ''q2'' (scenario_store, scenario_uploads)
                     quote_post)))
       = [\<lparr> quoteId = ''q2'', fileName = ''part2.step'', filePath = ''/objects/uploads/part2'',
            fileType = ''step'', fileSize = 3 \<rparr>]"
proof -
  let ?r = "post_quotes scenario_norm ''q2'' (scenario_store, scenario_uploads) quote_post"
  have a: "r_user quote_post = Some ''u2''"
    by (simp add: quote_post_def)
  have b: "private_objects scenario_uploads ''/objects/uploads/part2''
             = Some \<lparr> content = [1, 2, 3], metadata = None \<rparr>"
    by (simp add: scenario_uploads_def)
  have r: "?r = (fst ?r, fst (snd ?r), snd (snd ?r))"
    by simp
  have e: "file_extension ''part2.step'' = ''step''"
    by (simp add: file_extension_def)
  have f: "quoteFiles scenario_store = []"
    by (simp add: scenario_store_def)
  from quote_upload_policies [OF a quote_post_body r] a b e f quote_post_path
  show ?thesis by simp
qed

subsection \<open>User objects\<close>

lemma user_keys:
  "object_keys (userWithoutPassword u)
     = [''id'', ''email'', ''firstName'', ''lastName'', ''profileImageUrl'', ''isAdmin'',
        ''createdAt'', ''updatedAt'']"
  by (simp add: userWithoutPassword_def object_keys_def)

lemma user_no_password_key: "''password'' \<notin> set (object_keys (userWithoutPassword u))"
  by (simp add: user_keys)

lemma user_rehash [simp]: "userWithoutPassword (u\<lparr> password := h \<rparr>) = userWithoutPassword u"
  by (simp add: userWithoutPassword_def)

lemma find_uid_rehash:
  "find (\<lambda>u. uid u = i) (map (\<lambda>u. u\<lparr> password := f u \<rparr>) us)
     = map_option (\<lambda>u. u\<lparr> password := f u \<rparr>) (find (\<lambda>u. uid u = i) us)"
  by (induction us) simp_all

lemma find_email_rehash:
  "find (\<lambda>u. email u = Some e) (map (\<lambda>u. u\<lparr> password := f u \<rparr>) us)
     = map_option (\<lambda>u. u\<lparr> password := f u \<rparr>) (find (\<lambda>u. email u = Some e) us)"
  by (induction us) simp_all

lemma find_in_set: "find P us = Some u \<Longrightarrow> u \<in> set us"
  by (induction us) (auto split: if_splits)

lemma register_catch_keys: "''password'' \<notin> set (payload_keys (body (register_catch e)))"
  by (cases e) (simp_all add: payload_keys_def object_keys_def msg_json_def)

lemma register_catch_not_200 [simp]: "code (register_catch e) \<noteq> 200"
  by (cases e) simp_all

lemma register_shape:
  "(\<exists>d u' s'. insertUserSchema (r_body req) = Inr d
         \<and> createUser env s (d\<lparr> iu_password := hashPassword env (iu_password d) \<rparr>)
             = Inr (u', s')
         \<and> register env s req = (Response 200 (Json (userWithoutPassword u')), s'))
   \<or> (code (fst (register env s req)) \<noteq> 200
       \<and> ''password'' \<notin> set (payload_keys (body (fst (register env s req)))))"
  using register_catch_keys
  by (auto simp: register_def payload_keys_def object_keys_def msg_json_def
        split: sum.splits option.splits)

lemma login_shape:
  "(\<exists>e p u' h. credentials (r_body req) = Some (e, p) \<and> getUserByEmail s e = Some u'
         \<and> password u' = Some h \<and> verifyPassword env p h
         \<and> login env s req = Response 200 (Json (userWithoutPassword u')))
   \<or> (code (login env s req) \<noteq> 200
       \<and> ''password'' \<notin> set (payload_keys (body (login env s req))))"
  by (auto simp: login_def local_verify_def payload_keys_def object_keys_def msg_json_def
        split: sum.splits option.splits exn.splits)

lemma auth_user_shape:
  "(\<exists>r u'. r_user req = Some r \<and> getUser s r = Some u'
         \<and> auth_user s req = Response 200 (Json (userWithoutPassword u')))
   \<or> (code (auth_user s req) \<noteq> 200
       \<and> ''password'' \<notin> set (payload_keys (body (auth_user s req))))"
  by (auto simp: auth_user_def isAuthenticated_def unauthorized_def payload_keys_def
        object_keys_def msg_json_def split: option.splits)

lemma local_verify_rehash:
  assumes usable: "\<forall>u \<in> set (users s).
             (f u = None \<or> f u = Some []) = (password u = None \<or> password u = Some [])"
    and agree: "\<forall>u \<in> set (users s). \<forall>p h h'. password u = Some h \<and> f u = Some h' \<longrightarrow>
             verifyPassword env' p h' = verifyPassword env p h"
  shows "local_verify env' (rehash f s) e p = local_verify env s e p"
proof (cases "getUserByEmail s e")
  case None
  then show ?thesis
    by (simp add: local_verify_def getUserByEmail_def rehash_def find_email_rehash)
next
  case (Some u)
  then have mem: "u \<in> set (users s)"
    by (simp add: getUserByEmail_def find_in_set)
  from Some have re: "getUserByEmail (rehash f s) e = Some (u\<lparr> password := f u \<rparr>)"
    by (simp add: getUserByEmail_def rehash_def find_email_rehash)
  from usable mem
  have u: "(f u = None \<or> f u = Some []) = (password u = None \<or> password u = Some [])"
    by blast
  from agree mem
  have a: "\<And>p h h'. password u = Some h \<Longrightarrow> f u = Some h' \<Longrightarrow>
             verifyPassword env' p h' = verifyPassword env p h"
    by blast
  show ?thesis
  proof (cases "password u")
    case None
    with u Some re show ?thesis
      by (auto simp: local_verify_def split: option.splits)
  next
    case (Some h)
    note pw = this
    show ?thesis
    proof (cases "f u")
      case None
      with u pw \<open>getUserByEmail s e = Some u\<close> re show ?thesis
        by (auto simp: local_verify_def split: option.splits)
    next
      case (Some h')
      with u pw a [OF pw Some, of p] \<open>getUserByEmail s e = Some u\<close> re show ?thesis
        by (auto simp: local_verify_def)
    qed
  qed
qed


lemma login_rehash:
  assumes "\<forall>u \<in> set (users s).
             (f u = None \<or> f u = Some []) = (password u = None \<or> password u = Some [])"
    and "\<forall>u \<in> set (users s). \<forall>p h h'. password u = Some h \<and> f u = Some h' \<longrightarrow>
             v p h' = verifyPassword env p h"
  shows "login (env\<lparr> verifyPassword := v \<rparr>) (rehash f s) req = login env s req"
proof -
  have lv: "local_verify (env\<lparr> verifyPassword := v \<rparr>) (rehash f s) e p
              = local_verify env s e p" for e p
    using assms by (intro local_verify_rehash) simp_all
  show ?thesis
    by (simp add: login_def lv
          split: sum.splits exn.splits option.splits prod.splits verified.splits)
qed

lemma register_rehash:
  assumes "\<forall>d h1 h2.
             map_sum id (\<lambda>(u', s'). userWithoutPassword u')
               (createUser env s (d\<lparr> iu_password := h1 \<rparr>))
             = map_sum id (\<lambda>(u', s'). userWithoutPassword u')
                 (createUser env s (d\<lparr> iu_password := h2 \<rparr>))"
  shows "fst (register (env\<lparr> hashPassword := hp \<rparr>) s req) = fst (register env s req)"
proof (cases "insertUserSchema (r_body req)")
  case (Inl e)
  then show ?thesis by (simp add: register_def)
next
  case (Inr d)
  from assms
  have "map_sum id (\<lambda>(u', s'). userWithoutPassword u')
          (createUser env s (d\<lparr> iu_password := hp (iu_password d) \<rparr>))
        = map_sum id (\<lambda>(u', s'). userWithoutPassword u')
            (createUser env s (d\<lparr> iu_password := hashPassword env (iu_password d) \<rparr>))"
    by blast
  with Inr show ?thesis
    by (auto simp: register_def split: option.splits sum.splits)
qed

text \<open>
  C9.  The object sent for a user has the eight keys \<open>id\<close>, \<open>email\<close>, \<open>firstName\<close>,
  \<open>lastName\<close>, \<open>profileImageUrl\<close>, \<open>isAdmin\<close>, \<open>createdAt\<close>, \<open>updatedAt\<close>, so no
  \<open>password\<close> key, and it does not depend on the stored hash.  No response of
  \<open>POST /api/register\<close>, \<open>POST /api/login\<close> or \<open>GET /api/auth/user\<close> and no
  deserialized session user has a \<open>password\<close> key.  At each of the four sites the user
  object is that of one particular row: the row \<open>storage.createUser\<close> returned for the
  validated data with the hashed password, the row found under the submitted e-mail
  address, the row of the session's user, the row of the deserialized id.  Replacing
  every stored hash leaves \<open>GET /api/auth/user\<close> and session deserialization unchanged,
  and leaves \<open>POST /api/login\<close> unchanged when the presence test and \<open>verifyPassword\<close>
  come out as before; replacing the hash function leaves the response of
  \<open>POST /api/register\<close> unchanged when the user object of the created row does not depend
  on the password it was given.
\<close>

theorem user_objects_omit_password:
  "''password'' \<notin> set (object_keys (userWithoutPassword u))
   \<and> userWithoutPassword (u\<lparr> password := h \<rparr>) = userWithoutPassword u
   \<and> ''password'' \<notin> set (payload_keys (body (fst (register env s req))))
   \<and> ''password'' \<notin> set (payload_keys (body (login env s req)))
   \<and> ''password'' \<notin> set (payload_keys (body (auth_user s req)))
   \<and> (case deserializeUser s i of
         None \<Rightarrow> True
       | Some j \<Rightarrow> ''password'' \<notin> set (object_keys j))
   \<and> (code (fst (register env s req)) = 200 \<longrightarrow>
        (\<exists>d u' s'. insertUserSchema (r_body req) = Inr d
            \<and> createUser env s (d\<lparr> iu_password := hashPassword env (iu_password d) \<rparr>)
                = Inr (u', s')
            \<and> register env s req = (Response 200 (Json (userWithoutPassword u')), s')))
   \<and> (code (login env s req) = 200 \<longrightarrow>
        (\<exists>e p u' h'. credentials (r_body req) = Some (e, p) \<and> getUserByEmail s e = Some u'
            \<and> password u' = Some h' \<and> verifyPassword env p h'
            \<and> login env s req = Response 200 (Json (userWithoutPassword u'))))
   \<and> (code (auth_user s req) = 200 \<longrightarrow>
        (\<exists>r u'. r_user req = Some r \<and> getUser s r = Some u'
            \<and> auth_user s req = Response 200 (Json (userWithoutPassword u'))))
   \<and> deserializeUser s i = map_option userWithoutPassword (getUserById s i)
   \<and> auth_user (rehash f s) req = auth_user s req
   \<and> deserializeUser (rehash f s) i = deserializeUser s i
   \<and> ((\<forall>x \<in> set (users s).
          (f x = None \<or> f x = Some []) = (password x = None \<or> password x = Some []))
       \<and> (\<forall>x \<in> set (users s). \<forall>p h1 h2. password x = Some h1 \<and> f x = Some h2 \<longrightarrow>
            v p h2 = verifyPassword env p h1)
       \<longrightarrow> login (env\<lparr> verifyPassword := v \<rparr>) (rehash f s) req = login env s req)
   \<and> ((\<forall>d h1 h2.
          map_sum id (\<lambda>(u', s'). userWithoutPassword u')
            (createUser env s (d\<lparr> iu_password := h1 \<rparr>))
          = map_sum id (\<lambda>(u', s'). userWithoutPassword u')
              (createUser env s (d\<lparr> iu_password := h2 \<rparr>)))
       \<longrightarrow> fst (register (env\<lparr> hashPassword := hp \<rparr>) s req) = fst (register env s req))"
proof -
  have reg: "''password'' \<notin> set (payload_keys (body (fst (register env s req))))"
    and reg_ok: "code (fst (register env s req)) = 200 \<longrightarrow>
        (\<exists>d u' s'. insertUserSchema (r_body req) = Inr d
            \<and> createUser env s (d\<lparr> iu_password := hashPassword env (iu_password d) \<rparr>)
                = Inr (u', s')
            \<and> register env s req = (Response 200 (Json (userWithoutPassword u')), s'))"
    using register_shape [of req env s]
    by (auto simp: payload_keys_def user_keys)
  have log: "''password'' \<notin> set (payload_keys (body (login env s req)))"
    and log_ok: "code (login env s req) = 200 \<longrightarrow>
        (\<exists>e p u' h'. credentials (r_body req) = Some (e, p) \<and> getUserByEmail s e = Some u'
            \<and> password u' = Some h' \<and> verifyPassword env p h'
            \<and> login env s req = Response 200 (Json (userWithoutPassword u')))"
    using login_shape [of req s env]
    by (auto simp: payload_keys_def user_keys)
  have usr: "''password'' \<notin> set (payload_keys (body (auth_user s req)))"
    and usr_ok: "code (auth_user s req) = 200 \<longrightarrow>
        (\<exists>r u'. r_user req = Some r \<and> getUser s r = Some u'
            \<and> auth_user s req = Response 200 (Json (userWithoutPassword u')))"
    using auth_user_shape [of req s]
    by (auto simp: payload_keys_def user_keys)
  have des: "(case deserializeUser s i of
         None \<Rightarrow> True
       | Some j \<Rightarrow> ''password'' \<notin> set (object_keys j))"
    by (simp add: deserializeUser_def user_keys split: option.splits)
  have des_row: "deserializeUser s i = map_option userWithoutPassword (getUserById s i)"
    by (simp add: deserializeUser_def split: option.splits)
  have ni1: "auth_user (rehash f s) req = auth_user s req"
    by (simp add: auth_user_def rehash_def getUser_def find_uid_rehash
          split: sum.splits option.splits)
  have ni2: "deserializeUser (rehash f s) i = deserializeUser s i"
    by (simp add: deserializeUser_def rehash_def getUserById_def find_uid_rehash
          split: option.splits)
  have ni3: "(\<forall>x \<in> set (users s).
          (f x = None \<or> f x = Some []) = (password x = None \<or> password x = Some []))
       \<and> (\<forall>x \<in> set (users s). \<forall>p h1 h2. password x = Some h1 \<and> f x = Some h2 \<longrightarrow>
            v p h2 = verifyPassword env p h1)
       \<longrightarrow> login (env\<lparr> verifyPassword := v \<rparr>) (rehash f s) req = login env s req"
    using login_rehash [of s f v env req] by blast
  have ni4: "(\<forall>d h1 h2.
          map_sum id (\<lambda>(u', s'). userWithoutPassword u')
            (createUser env s (d\<lparr> iu_password := h1 \<rparr>))
          = map_sum id (\<lambda>(u', s'). userWithoutPassword u')
              (createUser env s (d\<lparr> iu_password := h2 \<rparr>)))
       \<longrightarrow> fst (register (env\<lparr> hashPassword := hp \<rparr>) s req) = fst (register env s req)"
    using register_rehash [of env s hp req] by blast
  have k: "''password'' \<notin> set (object_keys (userWithoutPassword u))"
    by (rule user_no_password_key)
  have r: "userWithoutPassword (u\<lparr> password := h \<rparr>) = userWithoutPassword u"
    by simp
  show ?thesis
    by (intro conjI k r reg log usr des reg_ok log_ok usr_ok des_row ni1 ni2 ni3 ni4)
qed


theorem user_objects_omit_password_witness:
  "fst (register scenario_env scenario_store register_request)
     = Response 200
         (Json (JObj [(''id'', JStr ''u3''), (''email'', JStr ''new@example.com''),
                      (''firstName'', JNull), (''lastName'', JNull),
                      (''profileImageUrl'', JNull), (''isAdmin'', JNum 0),
                      (''createdAt'', JNum 4), (''updatedAt'', JNum 4)]))
   \<and> (\<exists>d u' s'. insertUserSchema (r_body register_request) = Inr d
          \<and> createUser scenario_env scenario_store
               (d\<lparr> iu_password := hashPassword scenario_env (iu_password d) \<rparr>) = Inr (u', s')
          \<and> register scenario_env scenario_store register_request
              = (Response 200 (Json (userWithoutPassword u')), s'))
   \<and> login scenario_env scenario_store login_request
     = Response 200
         (Json (JObj [(''id'', JStr ''u1''), (''email'', JStr ''customer@example.com''),
                      (''firstName'', JStr ''Cem''), (''lastName'', JNull),
                      (''profileImageUrl'', JNull), (''isAdmin'', JNum 0),
                      (''createdAt'', JNum 2), (''updatedAt'', JNum 2)]))
   \<and> (\<exists>e p u' h'. credentials (r_body login_request) = Some (e, p)
          \<and> getUserByEmail scenario_store e = Some u'
          \<and> password u' = Some h' \<and> verifyPassword scenario_env p h'
          \<and> login scenario_env scenario_store login_request
              = Response 200 (Json (userWithoutPassword u')))
   \<and> auth_user scenario_store (quote_request ''u1'' [])
       = Response 200
           (Json (JObj [(''id'', JStr ''u1''), (''email'', JStr ''customer@example.com''),
                        (''firstName'', JStr ''Cem''), (''lastName'', JNull),
                        (''profileImageUrl'', JNull), (''isAdmin'', JNum 0),
                        (''createdAt'', JNum 2), (''updatedAt'', JNum 2)]))
   \<and> (\<exists>r u'. r_user (quote_request ''u1'' []) = Some r \<and> getUser scenario_store r = Some u'
          \<and> auth_user scenario_store (quote_request ''u1'' [])
              = Response 200 (Json (userWithoutPassword u')))
   \<and> login (scenario_env\<lparr> verifyPassword := (\<lambda>p h. verifyPassword scenario_env p (drop 1 h)) \<rparr>)
         (rehash (\<lambda>x. map_option (\<lambda>h. CHR ''x'' # h) (password x)) scenario_store)
         login_request
       = login scenario_env scenario_store login_request
   \<and> fst (register (scenario_env\<lparr> hashPassword := (\<lambda>p. p) \<rparr>) scenario_store register_request)
       = fst (register scenario_env scenario_store register_request)"
proof -
  let ?f = "\<lambda>x. map_option (\<lambda>h. CHR ''x'' # h) (password x)"
  let ?v = "\<lambda>p h. verifyPassword scenario_env p (drop 1 h)"
  have r: "fst (register scenario_env scenario_store register_request)
     = Response 200
         (Json (JObj [(''id'', JStr ''u3''), (''email'', JStr ''new@example.com''),
                      (''firstName'', JNull), (''lastName'', JNull),
                      (''profileImageUrl'', JNull), (''isAdmin'', JNum 0),
                      (''createdAt'', JNum 4), (''updatedAt'', JNum 4)]))"
    by (simp add: register_def register_request_def insertUserSchema_def opt_string_def
          getUserByEmail_def scenario_store_def scenario_admin_def scenario_customer_def
          scenario_stranger_def scenario_env_def scenario_createUser_def Let_def
          userWithoutPassword_def jopt_def)
  have l: "login scenario_env scenario_store login_request
     = Response 200
         (Json (JObj [(''id'', JStr ''u1''), (''email'', JStr ''customer@example.com''),
                      (''firstName'', JStr ''Cem''), (''lastName'', JNull),
                      (''profileImageUrl'', JNull), (''isAdmin'', JNum 0),
                      (''createdAt'', JNum 2), (''updatedAt'', JNum 2)]))"
    by (simp add: login_def login_request_def loginUserSchema_def credentials_def
          local_verify_def getUserByEmail_def scenario_store_def scenario_admin_def
          scenario_customer_def scenario_env_def userWithoutPassword_def jopt_def)
  have a: "auth_user scenario_store (quote_request ''u1'' [])
       = Response 200
           (Json (JObj [(''id'', JStr ''u1''), (''email'', JStr ''customer@example.com''),
                        (''firstName'', JStr ''Cem''), (''lastName'', JNull),
                        (''profileImageUrl'', JNull), (''isAdmin'', JNum 0),
                        (''createdAt'', JNum 2), (''updatedAt'', JNum 2)]))"
    by (simp add: auth_user_def isAuthenticated_def quote_request_def getUser_def
          scenario_store_def scenario_admin_def scenario_customer_def
          userWithoutPassword_def jopt_def)
  have usable: "\<forall>x \<in> set (users scenario_store).
          (?f x = None \<or> ?f x = Some []) = (password x = None \<or> password x = Some [])"
    by (simp add: scenario_store_def scenario_admin_def scenario_customer_def
          scenario_stranger_def)
  have agree: "\<forall>x \<in> set (users scenario_store). \<forall>p h1 h2.
          password x = Some h1 \<and> ?f x = Some h2 \<longrightarrow> ?v p h2 = verifyPassword scenario_env p h1"
    by auto
  have pub: "\<forall>d h1 h2.
          map_sum id (\<lambda>(u', s'). userWithoutPassword u')
            (createUser scenario_env scenario_store (d\<lparr> iu_password := h1 \<rparr>))
          = map_sum id (\<lambda>(u', s'). userWithoutPassword u')
              (createUser scenario_env scenario_store (d\<lparr> iu_password := h2 \<rparr>))"
    by (simp add: scenario_env_def scenario_createUser_def Let_def userWithoutPassword_def)
  note reg = user_objects_omit_password
         [where env = scenario_env and s = scenario_store and req = register_request
            and hp = "\<lambda>p. p"]
  note log = user_objects_omit_password
         [where env = scenario_env and s = scenario_store and req = login_request
            and f = ?f and v = ?v]
  note usr = user_objects_omit_password
         [where s = scenario_store and req = "quote_request ''u1'' []"]
  from reg r pub
  have 1: "\<exists>d u' s'. insertUserSchema (r_body register_request) = Inr d
          \<and> createUser scenario_env scenario_store
               (d\<lparr> iu_password := hashPassword scenario_env (iu_password d) \<rparr>) = Inr (u', s')
          \<and> register scenario_env scenario_store register_request
              = (Response 200 (Json (userWithoutPassword u')), s')"
    and 5: "fst (register (scenario_env\<lparr> hashPassword := (\<lambda>p. p) \<rparr>) scenario_store
                   register_request)
            = fst (register scenario_env scenario_store register_request)"
    by simp_all
  from log l usable agree
  have 2: "\<exists>e p u' h'. credentials (r_body login_request) = Some (e, p)
          \<and> getUserByEmail scenario_store e = Some u'
          \<and> password u' = Some h' \<and> verifyPassword scenario_env p h'
          \<and> login scenario_env scenario_store login_request
              = Response 200 (Json (userWithoutPassword u'))"
    and 4: "login (scenario_env\<lparr> verifyPassword := ?v \<rparr>) (rehash ?f scenario_store) login_request
            = login scenario_env scenario_store login_request"
    by simp_all
  from usr a
  have 3: "\<exists>r u'. r_user (quote_request ''u1'' []) = Some r \<and> getUser scenario_store r = Some u'
          \<and> auth_user scenario_store (quote_request ''u1'' [])
              = Response 200 (Json (userWithoutPassword u'))"
    by simp
  from r l a 1 2 3 4 5 show ?thesis by blast
qed

end
